theory Spec2Isabelle
  imports Main "HOL-Library.Word"
begin

unbundle bit_operations_syntax

section \<open>Data model of src/remote/remote_driver.c\<close>

text \<open>
  The embedding follows the client side of the remote driver: the per-call objects
  (\<open>struct remote_thread_call\<close>), the per-stream objects (\<open>struct private_stream_data\<close>),
  the connection (\<open>struct private_data\<close>) and the functions that frame, send, receive
  and dispatch messages. C \<open>unsigned int\<close> and \<open>int\<close> are 32-bit words (an \<open>int\<close> by two's
  complement); return codes of the C functions are given as \<open>int\<close> (0, -1, -2, a byte
  count). The code is taken as built without \<open>HAVE_SASL\<close>, so every \<open>#if HAVE_SASL\<close>
  block is absent.
\<close>

type_synonym byte = "8 word"
type_synonym u32 = "32 word"

text \<open>The anonymous enum of call modes, lines 95-100.\<close>

datatype call_mode =
  REMOTE_MODE_WAIT_TX
| REMOTE_MODE_WAIT_RX
| REMOTE_MODE_COMPLETE
| REMOTE_MODE_ERROR

text \<open>
  \<open>remote_error\<close>: the fields of the on-wire error record that the driver reads
  (\<open>err.code\<close>, \<open>err.domain\<close>, \<open>err.level\<close>, \<open>err.message\<close>, \<open>err.str1..3\<close>,
  \<open>err.int1\<close>, \<open>err.int2\<close>). The optional strings are pointers in C (\<open>NULL\<close> is \<open>None\<close>).
\<close>

record remote_error =
  code :: u32
  domain :: u32
  message :: "string option"
  level :: u32
  str1 :: "string option"
  str2 :: "string option"
  str3 :: "string option"
  int1 :: u32
  int2 :: u32

text \<open>\<open>memset (&err, 0, sizeof err)\<close>.\<close>

definition zero_error :: remote_error where
  "zero_error = \<lparr> code = 0, domain = 0, message = None, level = 0,
     str1 = None, str2 = None, str3 = None, int1 = 0, int2 = 0 \<rparr>"

text \<open>\<open>struct remote_message_header\<close>, with the field order of section 6.1 of the spec.\<close>

record remote_message_header =
  hdr_prog :: u32
  hdr_vers :: u32
  hdr_proc :: u32
  hdr_type :: u32
  hdr_serial :: u32
  hdr_status :: u32

text \<open>
  \<open>struct remote_thread_call\<close>, lines 102-123. \<open>buffer\<close> holds the bytes of the C array
  that have been written (its first \<open>bufferLength\<close> bytes); \<open>ret_filter\<close> is the XDR
  decoder of the reply body, \<open>ret\<close> the slot it fills. The \<open>next\<close> link is the order of
  the wait queue in the connection, the condition variable is the log of signals there.
\<close>

record remote_thread_call =
  mode :: call_mode
  buffer :: "byte list"
  bufferLength :: u32
  bufferOffset :: u32
  serial :: u32
  proc_nr :: u32
  want_reply :: bool
  ret_filter :: "byte list \<Rightarrow> byte list option"
  ret :: "byte list option"
  err :: remote_error

text \<open>\<open>VIR_ALLOC\<close> zero-fills: mode 0 is \<open>REMOTE_MODE_WAIT_TX\<close>.\<close>

definition calloc_call :: remote_thread_call where
  "calloc_call = \<lparr> mode = REMOTE_MODE_WAIT_TX, buffer = [], bufferLength = 0,
     bufferOffset = 0, serial = 0, proc_nr = 0, want_reply = False,
     ret_filter = (\<lambda>_. None), ret = None, err = zero_error \<rparr>"

text \<open>
  \<open>struct private_stream_data\<close>, lines 125-150. \<open>incoming\<close> is the heap buffer of
  \<open>incomingLength\<close> bytes, of which the first \<open>incomingOffset\<close> hold data; \<open>cb\<close> says
  whether a callback is registered; \<open>cbTimer_timeout\<close> is the timeout last given to
  \<open>virEventUpdateTimeout\<close> for the stream's timer.
\<close>

record private_stream_data =
  has_error :: bool
  st_err :: remote_error
  st_serial :: u32
  st_proc_nr :: u32
  cb :: bool
  cbEvents :: u32
  cbTimer_timeout :: int
  incoming :: "byte list"
  incomingOffset :: u32
  incomingLength :: u32

definition calloc_stream :: private_stream_data where
  "calloc_stream = \<lparr> has_error = False, st_err = zero_error, st_serial = 0,
     st_proc_nr = 0, cb = False, cbEvents = 0, cbTimer_timeout = 0, incoming = [],
     incomingOffset = 0, incomingLength = 0 \<rparr>"

text \<open>
  \<open>struct private_data\<close>, lines 152-198, as far as the multiplexer uses it. Calls and
  streams are heap objects: \<open>calls\<close> and \<open>strm\<close> map an address to the object, the wait
  queue \<open>waitDispatch\<close> and the registry \<open>streams\<close> are the addresses in the order of the
  \<open>next\<close> links. \<open>priv_buffer\<close> is the frame buffer \<open>char buffer[4 + REMOTE_MESSAGE_MAX]\<close>
  (the bytes received so far), \<open>signaled\<close> logs every \<open>virCondSignal\<close> (the address of
  the call whose condition variable was signaled), \<open>eventQueue\<close> is
  \<open>priv->domainEventState\<close> (the queued events). Three more fields stand for the C
  runtime: \<open>brk\<close> is the address the next \<open>VIR_ALLOC\<close> returns, \<open>oom\<close> says that
  allocations fail, \<open>cond_init_fails\<close> that \<open>virCondInit\<close> fails.
\<close>

record private_data =
  counter :: u32
  priv_buffer :: "byte list"
  priv_bufferLength :: u32
  priv_bufferOffset :: u32
  waitDispatch :: "nat list"
  calls :: "nat \<Rightarrow> remote_thread_call"
  streams :: "nat list"
  strm :: "nat \<Rightarrow> private_stream_data"
  signaled :: "nat list"
  eventQueue :: "byte list list"
  brk :: nat
  oom :: bool
  cond_init_fails :: bool

text \<open>The call flags, lines 200-205.\<close>

definition REMOTE_CALL_IN_OPEN :: u32 where "REMOTE_CALL_IN_OPEN = push_bit 0 1"
definition REMOTE_CALL_QUIET_MISSING_RPC :: u32 where "REMOTE_CALL_QUIET_MISSING_RPC = push_bit 1 1"
definition REMOTE_CALL_QEMU :: u32 where "REMOTE_CALL_QEMU = push_bit 2 1"
definition REMOTE_CALL_NONBLOCK :: u32 where "REMOTE_CALL_NONBLOCK = push_bit 3 1"

text \<open>
  Constants and generated functions that the driver takes from headers outside
  \<open>src/\<close> (\<open>remote_protocol.h\<close>, \<open>qemu_protocol.h\<close>, \<open>virterror.h\<close>, \<open>libvirt.h\<close>) are
  parameters of the model, collected in one record. \<open>xdr_remote_error\<close> is the generated
  decoder of the error record; \<open>remoteDomainReadEvent p\<close> stands for the reader that
  \<open>processCallDispatchMessage\<close> calls for the event procedure \<open>p\<close>
  (\<open>remoteDomainReadEventLifecycle\<close> and its six siblings, lines 3673-3870, which call
  generated decoders and object constructors and return \<open>NULL\<close> on failure).
\<close>

record remote_env =
  REMOTE_PROGRAM :: u32
  REMOTE_PROTOCOL_VERSION :: u32
  QEMU_PROGRAM :: u32
  QEMU_PROTOCOL_VERSION :: u32
  REMOTE_MESSAGE_MAX :: u32
  xdr_remote_error :: "byte list \<Rightarrow> remote_error option"
  VIR_FROM_REMOTE :: u32
  VIR_FROM_NWFILTER :: u32
  VIR_FROM_QEMU :: u32
  VIR_FROM_XEN :: u32
  VIR_ERR_ERROR :: u32
  VIR_ERR_RPC :: u32
  VIR_ERR_NO_SUPPORT :: u32
  VIR_WAR_NO_NWFILTER :: u32
  VIR_ERR_INVALID_NWFILTER :: u32
  VIR_ERR_NO_NWFILTER :: u32
  VIR_ERR_BUILD_FIREWALL :: u32
  VIR_WAR_NO_SECRET :: u32
  VIR_ERR_INVALID_SECRET :: u32
  VIR_ERR_OPERATION_TIMEOUT :: u32
  VIR_ERR_MIGRATE_PERSIST_FAILED :: u32
  VIR_STREAM_NONBLOCK :: u32
  VIR_STREAM_EVENT_READABLE :: u32
  VIR_STREAM_EVENT_WRITABLE :: u32
  REMOTE_PROC_DOMAIN_EVENT_LIFECYCLE :: u32
  REMOTE_PROC_DOMAIN_EVENT_REBOOT :: u32
  REMOTE_PROC_DOMAIN_EVENT_RTC_CHANGE :: u32
  REMOTE_PROC_DOMAIN_EVENT_WATCHDOG :: u32
  REMOTE_PROC_DOMAIN_EVENT_IO_ERROR :: u32
  REMOTE_PROC_DOMAIN_EVENT_IO_ERROR_REASON :: u32
  REMOTE_PROC_DOMAIN_EVENT_GRAPHICS :: u32
  remoteDomainReadEvent :: "u32 \<Rightarrow> byte list \<Rightarrow> byte list option"

text \<open>
  Modelled from the spec: the message types and statuses of \<open>remote_protocol.h\<close>, which
  section 6.1 gives as CALL=0 REPLY=1 MESSAGE=2 STREAM=3 and OK=0 ERROR=1 CONTINUE=2.
\<close>

definition REMOTE_CALL :: u32 where "REMOTE_CALL = 0"
definition REMOTE_REPLY :: u32 where "REMOTE_REPLY = 1"
definition REMOTE_MESSAGE :: u32 where "REMOTE_MESSAGE = 2"
definition REMOTE_STREAM :: u32 where "REMOTE_STREAM = 3"

definition REMOTE_OK :: u32 where "REMOTE_OK = 0"
definition REMOTE_ERROR :: u32 where "REMOTE_ERROR = 1"
definition REMOTE_CONTINUE :: u32 where "REMOTE_CONTINUE = 2"

text \<open>
  Modelled from the spec: \<open>REMOTE_MESSAGE_HEADER_XDR_LEN\<close> of \<open>remote_protocol.h\<close>, the size
  of the length word; section 4.1 and the comment at lines 5016-5018 give it as 4 bytes.
\<close>

definition REMOTE_MESSAGE_HEADER_XDR_LEN :: u32 where
  "REMOTE_MESSAGE_HEADER_XDR_LEN = 4"

subsection \<open>XDR primitives\<close>

text \<open>
  Modelled from the spec: \<open>xdr_u_int\<close> (RFC 4506, section 6.1 of the spec): an unsigned
  integer is four bytes, most significant first. Decoding fails when the memory stream
  holds fewer than four bytes.
\<close>

definition xdr_u_int_enc :: "u32 \<Rightarrow> byte list" where
  "xdr_u_int_enc w = [ucast (drop_bit 24 w), ucast (drop_bit 16 w), ucast (drop_bit 8 w), ucast w]"

fun xdr_u_int_dec :: "byte list \<Rightarrow> u32 option" where
  "xdr_u_int_dec (a # b # c # d # _) =
     Some (push_bit 24 (ucast a) OR push_bit 16 (ucast b) OR push_bit 8 (ucast c) OR ucast d)"
| "xdr_u_int_dec _ = None"

text \<open>
  Modelled from the spec: \<open>xdr_remote_message_header\<close> (generated from
  \<open>remote_protocol.x\<close>), six 4-byte fields in the order of section 6.1.
\<close>

definition xdr_remote_message_header_enc :: "remote_message_header \<Rightarrow> byte list" where
  "xdr_remote_message_header_enc h =
     xdr_u_int_enc (hdr_prog h) @ xdr_u_int_enc (hdr_vers h) @ xdr_u_int_enc (hdr_proc h) @
     xdr_u_int_enc (hdr_type h) @ xdr_u_int_enc (hdr_serial h) @ xdr_u_int_enc (hdr_status h)"

definition xdr_remote_message_header_dec :: "byte list \<Rightarrow> remote_message_header option" where
  "xdr_remote_message_header_dec bs =
     (case (xdr_u_int_dec bs, xdr_u_int_dec (drop 4 bs), xdr_u_int_dec (drop 8 bs),
            xdr_u_int_dec (drop 12 bs), xdr_u_int_dec (drop 16 bs), xdr_u_int_dec (drop 20 bs)) of
        (Some p, Some v, Some pr, Some t, Some s, Some st) \<Rightarrow>
          Some \<lparr> hdr_prog = p, hdr_vers = v, hdr_proc = pr, hdr_type = t,
                 hdr_serial = s, hdr_status = st \<rparr>
      | _ \<Rightarrow> None)"

subsection \<open>Length word of an incoming frame\<close>

text \<open>
  \<open>remoteIODecodeMessageLength\<close>, lines 5305-5337. The XDR stream covers the first
  \<open>bufferLength\<close> bytes of the frame buffer. Returns -1 and leaves the connection as it
  was, or 0 with \<open>bufferLength\<close> extended by the body length.
\<close>

definition remoteIODecodeMessageLength :: "remote_env \<Rightarrow> private_data \<Rightarrow> int \<times> private_data" where
  "remoteIODecodeMessageLength K priv =
     (case xdr_u_int_dec (take (unat (priv_bufferLength priv)) (priv_buffer priv)) of
        None \<Rightarrow> (-1, priv)
      | Some len \<Rightarrow>
          if len < REMOTE_MESSAGE_HEADER_XDR_LEN then (-1, priv)
          else let len' = len - REMOTE_MESSAGE_HEADER_XDR_LEN in
            if len' > REMOTE_MESSAGE_MAX K then (-1, priv)
            else (0, priv\<lparr> priv_bufferLength := priv_bufferLength priv + len' \<rparr>))"

subsection \<open>Building a call\<close>

text \<open>
  \<open>prepareCall\<close>, lines 4955-5036. \<open>args_filter n\<close> is the encoder of the arguments
  writing into an XDR memory stream with \<open>n\<close> bytes left: it gives the encoded bytes or
  fails. The XDR stream for header and arguments has \<open>REMOTE_MESSAGE_MAX\<close> bytes. The
  result is the address of the new call (\<open>None\<close> for \<open>NULL\<close>) and the connection; the
  counter is incremented before the encoders can fail.
\<close>

definition prepareCall ::
  "remote_env \<Rightarrow> private_data \<Rightarrow> u32 \<Rightarrow> u32 \<Rightarrow> (nat \<Rightarrow> byte list option) \<Rightarrow>
   (byte list \<Rightarrow> byte list option) \<Rightarrow> nat option \<times> private_data" where
  "prepareCall K priv flags proc args_filter retf =
     (if oom priv then (None, priv)
      else if cond_init_fails priv then (None, priv)
      else
        let a = brk priv;
            rv = calloc_call\<lparr> serial := counter priv, proc_nr := proc,
                               ret_filter := retf, want_reply := True \<rparr>;
            priv1 = priv\<lparr> counter := counter priv + 1, brk := Suc (brk priv) \<rparr>;
            hdr = \<lparr> hdr_prog = (if flags AND REMOTE_CALL_QEMU \<noteq> 0 then QEMU_PROGRAM K
                                  else REMOTE_PROGRAM K),
                    hdr_vers = (if flags AND REMOTE_CALL_QEMU \<noteq> 0 then QEMU_PROTOCOL_VERSION K
                                  else REMOTE_PROTOCOL_VERSION K),
                    hdr_proc = proc, hdr_type = REMOTE_CALL, hdr_serial = serial rv,
                    hdr_status = REMOTE_OK \<rparr>;
            hb = xdr_remote_message_header_enc hdr
        in if unat (REMOTE_MESSAGE_MAX K) < length hb then (None, priv1)
           else (case args_filter (unat (REMOTE_MESSAGE_MAX K) - length hb) of
                   None \<Rightarrow> (None, priv1)
                 | Some ab \<Rightarrow>
                     if unat (REMOTE_MESSAGE_MAX K) - length hb < length ab then (None, priv1)
                     else
                       let len = of_nat (length hb + length ab) + REMOTE_MESSAGE_HEADER_XDR_LEN;
                           rv' = rv\<lparr> bufferLength := len, buffer := xdr_u_int_enc len @ hb @ ab \<rparr>
                       in (Some a, priv1\<lparr> calls := (calls priv1)(a := rv') \<rparr>)))"

subsection \<open>Streams\<close>

text \<open>\<open>remoteStreamOpen\<close>, lines 3966-3987: the new stream goes to the front of the registry.\<close>

definition remoteStreamOpen :: "private_data \<Rightarrow> u32 \<Rightarrow> u32 \<Rightarrow> nat option \<times> private_data" where
  "remoteStreamOpen priv proc ser =
     (if oom priv then (None, priv)
      else
        let a = brk priv;
            stpriv = calloc_stream\<lparr> st_proc_nr := proc, st_serial := ser \<rparr>
        in (Some a, priv\<lparr> brk := Suc (brk priv), strm := (strm priv)(a := stpriv),
                            streams := a # streams priv \<rparr>))"

text \<open>\<open>remoteStreamEventTimerUpdate\<close>, lines 3990-4006.\<close>

definition remoteStreamEventTimerUpdate :: "remote_env \<Rightarrow> private_stream_data \<Rightarrow> private_stream_data" where
  "remoteStreamEventTimerUpdate K privst =
     (if \<not> cb privst then privst
      else if (incomingOffset privst \<noteq> 0 \<and> cbEvents privst AND VIR_STREAM_EVENT_READABLE K \<noteq> 0)
              \<or> cbEvents privst AND VIR_STREAM_EVENT_WRITABLE K \<noteq> 0
      then privst\<lparr> cbTimer_timeout := 0 \<rparr>
      else privst\<lparr> cbTimer_timeout := -1 \<rparr>)"

text \<open>
  \<open>remoteStreamRelease\<close>, lines 4128-4153. The loop of the \<open>else\<close> branch never advances
  \<open>tmp\<close>: it ends when the registry has fewer than two entries or when the stream is the
  second entry, and runs forever otherwise (\<open>None\<close>).
\<close>

definition remoteStreamRelease :: "private_data \<Rightarrow> nat \<Rightarrow> private_data option" where
  "remoteStreamRelease priv privst =
     (case streams priv of
        [] \<Rightarrow> Some priv
      | h # rest \<Rightarrow>
          if h = privst then Some (priv\<lparr> streams := rest \<rparr>)
          else (case rest of
                  [] \<Rightarrow> Some priv
                | h2 # rest2 \<Rightarrow>
                    if h2 = privst then Some (priv\<lparr> streams := h # rest2 \<rparr>) else None))"

text \<open>
  The first half of \<open>remoteStreamPacket\<close>, lines 4023-4089: the call object of a stream
  packet with its encoded buffer. \<open>VIR_ALLOC\<close> zero-fills, so \<open>want_reply\<close> is set only for
  the statuses \<open>REMOTE_OK\<close> and \<open>REMOTE_ERROR\<close>.
\<close>

definition remoteStreamPacket_call ::
  "remote_env \<Rightarrow> private_data \<Rightarrow> nat \<Rightarrow> u32 \<Rightarrow> byte list \<Rightarrow> nat option \<times> private_data" where
  "remoteStreamPacket_call K priv st status data =
     (if oom priv then (None, priv)
      else
        let privst = strm priv st;
            a = brk priv;
            thiscall = calloc_call\<lparr> mode := REMOTE_MODE_WAIT_TX, serial := st_serial privst,
              proc_nr := st_proc_nr privst,
              want_reply := (status = REMOTE_OK \<or> status = REMOTE_ERROR) \<rparr>
        in if cond_init_fails priv then (None, priv)
           else
             let hdr = \<lparr> hdr_prog = REMOTE_PROGRAM K, hdr_vers = REMOTE_PROTOCOL_VERSION K,
                         hdr_proc = st_proc_nr privst, hdr_type = REMOTE_STREAM,
                         hdr_serial = st_serial privst, hdr_status = status \<rparr>;
                 hb = xdr_remote_message_header_enc hdr
             in if unat (REMOTE_MESSAGE_MAX K) < length hb then (None, priv)
                else
                  let len1 = REMOTE_MESSAGE_HEADER_XDR_LEN + of_nat (length hb) in
                  if status = REMOTE_CONTINUE \<and> unat ((4 + REMOTE_MESSAGE_MAX K) - len1) < length data
                  then (None, priv)
                  else
                    let payload = (if status = REMOTE_CONTINUE then data else []);
                        len = len1 + of_nat (length payload);
                        thiscall' = thiscall\<lparr> bufferLength := len,
                                      buffer := xdr_u_int_enc len @ hb @ payload \<rparr>
                    in (Some a, priv\<lparr> brk := Suc (brk priv), calls := (calls priv)(a := thiscall') \<rparr>))"

text \<open>\<open>remoteStreamHasError\<close>, lines 4106-4126 (the stored error is raised when it is set).\<close>

definition remoteStreamHasError :: "private_data \<Rightarrow> nat \<Rightarrow> bool" where
  "remoteStreamHasError priv st = has_error (strm priv st)"

subsection \<open>Transport\<close>

text \<open>
  The transport is the environment of the model. One call of \<open>remoteIOWriteBuffer\<close>
  (lines 5040-5074) or of \<open>remoteIOReadBuffer\<close> (lines 5077-5143) has one outcome, whether
  over TLS or over the plain socket and after any \<open>EINTR\<close> retries: bytes were moved,
  the transport would block, or it failed. A receive of no bytes is the end of the
  stream, which the driver treats as a failure.
\<close>

datatype send_result = Sent nat | Send_EAGAIN | Send_failed

datatype recv_result = Received "byte list" | Recv_EAGAIN | Recv_failed

definition remoteIOWriteBuffer :: "send_result \<Rightarrow> nat \<Rightarrow> int" where
  "remoteIOWriteBuffer r len =
     (case r of Sent n \<Rightarrow> int (min n len) | Send_EAGAIN \<Rightarrow> 0 | Send_failed \<Rightarrow> -1)"

definition remoteIOReadBuffer :: "recv_result \<Rightarrow> nat \<Rightarrow> int \<times> byte list" where
  "remoteIOReadBuffer r len =
     (case r of
        Received bs \<Rightarrow> (if take len bs = [] then (-1, []) else (int (length (take len bs)), take len bs))
      | Recv_EAGAIN \<Rightarrow> (0, [])
      | Recv_failed \<Rightarrow> (-1, []))"

text \<open>\<open>remoteIOWriteMessage\<close>, lines 5146-5210, the branch without a SASL layer.\<close>

definition remoteIOWriteMessage :: "private_data \<Rightarrow> nat \<Rightarrow> send_result \<Rightarrow> int \<times> private_data" where
  "remoteIOWriteMessage priv thecall r =
     (let c = calls priv thecall;
          rc = remoteIOWriteBuffer r (unat (bufferLength c - bufferOffset c))
      in if rc < 0 then (rc, priv)
         else
           let c1 = c\<lparr> bufferOffset := bufferOffset c + word_of_int rc \<rparr>;
               c2 = (if bufferOffset c1 = bufferLength c1
                     then c1\<lparr> bufferOffset := 0, bufferLength := 0,
                              mode := (if want_reply c1 then REMOTE_MODE_WAIT_RX
                                       else REMOTE_MODE_COMPLETE) \<rparr>
                     else c1)
           in (0, priv\<lparr> calls := (calls priv)(thecall := c2) \<rparr>))"

text \<open>
  \<open>remoteIOHandleOutput\<close>, lines 5213-5236. The second loop walks the queue from the first
  call in \<open>WAIT_TX\<close>; each round takes the next outcome of the transport (no outcome
  left: the transport would block).
\<close>

fun remoteIOHandleOutput_loop :: "private_data \<Rightarrow> nat list \<Rightarrow> send_result list \<Rightarrow> int \<times> private_data" where
  "remoteIOHandleOutput_loop priv [] tx = (0, priv)"
| "remoteIOHandleOutput_loop priv (thecall # rest) tx =
     (case remoteIOWriteMessage priv thecall (case tx of [] \<Rightarrow> Send_EAGAIN | r # _ \<Rightarrow> r) of
        (rc, priv1) \<Rightarrow>
          if rc < 0 then (rc, priv1)
          else if mode (calls priv1 thecall) = REMOTE_MODE_WAIT_TX then (0, priv1)
          else remoteIOHandleOutput_loop priv1 rest (tl tx))"

definition remoteIOHandleOutput :: "private_data \<Rightarrow> send_result list \<Rightarrow> int \<times> private_data" where
  "remoteIOHandleOutput priv tx =
     (case dropWhile (\<lambda>t. mode (calls priv t) \<noteq> REMOTE_MODE_WAIT_TX) (waitDispatch priv) of
        [] \<Rightarrow> (-1, priv)
      | thecall # rest \<Rightarrow> remoteIOHandleOutput_loop priv (thecall # rest) tx)"

text \<open>\<open>remoteIOReadMessage\<close>, lines 5238-5302, the branch without a SASL layer.\<close>

definition remoteIOReadMessage :: "private_data \<Rightarrow> recv_result \<Rightarrow> int \<times> private_data" where
  "remoteIOReadMessage priv r =
     (let priv1 = (if priv_bufferLength priv = 0 then priv\<lparr> priv_bufferLength := 4 \<rparr> else priv);
          wantData = priv_bufferLength priv1 - priv_bufferOffset priv1
      in case remoteIOReadBuffer r (unat wantData) of
           (rc, bs) \<Rightarrow>
             if rc < 0 then (-1, priv1)
             else if rc = 0 then (0, priv1)
             else (rc, priv1\<lparr> priv_buffer := take (unat (priv_bufferOffset priv1)) (priv_buffer priv1) @ bs,
                                 priv_bufferOffset := priv_bufferOffset priv1 + word_of_int rc \<rparr>))"

subsection \<open>Dispatch of one received frame\<close>

text \<open>
  \<open>processCallDispatchReply\<close>, lines 5429-5487. \<open>body\<close> is what the XDR stream holds after
  the header. The first call of the queue with the serial of the header is taken.
\<close>

definition processCallDispatchReply ::
  "remote_env \<Rightarrow> private_data \<Rightarrow> remote_message_header \<Rightarrow> byte list \<Rightarrow> int \<times> private_data" where
  "processCallDispatchReply K priv hdr body =
     (case find (\<lambda>t. \<not> serial (calls priv t) \<noteq> hdr_serial hdr) (waitDispatch priv) of
        None \<Rightarrow> (-1, priv)
      | Some thecall \<Rightarrow>
          let c = calls priv thecall in
          if hdr_proc hdr \<noteq> proc_nr c then (-1, priv)
          else if hdr_status hdr = REMOTE_OK then
            (case ret_filter c body of
               None \<Rightarrow> (-1, priv)
             | Some r \<Rightarrow>
                 (0, priv\<lparr> calls := (calls priv)(thecall := c\<lparr> ret := Some r,
                                                     mode := REMOTE_MODE_COMPLETE \<rparr>) \<rparr>))
          else if hdr_status hdr = REMOTE_ERROR then
            (case xdr_remote_error K body of
               None \<Rightarrow> (-1, priv\<lparr> calls := (calls priv)(thecall := c\<lparr> err := zero_error \<rparr>) \<rparr>)
             | Some e \<Rightarrow>
                 (0, priv\<lparr> calls := (calls priv)(thecall := c\<lparr> err := e,
                                                     mode := REMOTE_MODE_ERROR \<rparr>) \<rparr>))
          else (-1, priv))"

text \<open>
  \<open>processCallDispatchMessage\<close>, lines 5489-5544. \<open>in_open\<close> is the C truth value
  \<open>flags & REMOTE_CALL_IN_OPEN\<close>; \<open>remoteDomainEventQueue\<close> appends the event.
\<close>

definition processCallDispatchMessage ::
  "remote_env \<Rightarrow> private_data \<Rightarrow> u32 \<Rightarrow> remote_message_header \<Rightarrow> byte list \<Rightarrow> int \<times> private_data" where
  "processCallDispatchMessage K priv in_open hdr body =
     (if in_open \<noteq> 0 then (-1, priv)
      else
        let p = hdr_proc hdr;
            event =
              (if p = REMOTE_PROC_DOMAIN_EVENT_LIFECYCLE K then remoteDomainReadEvent K p body
               else if p = REMOTE_PROC_DOMAIN_EVENT_REBOOT K then remoteDomainReadEvent K p body
               else if p = REMOTE_PROC_DOMAIN_EVENT_RTC_CHANGE K then remoteDomainReadEvent K p body
               else if p = REMOTE_PROC_DOMAIN_EVENT_WATCHDOG K then remoteDomainReadEvent K p body
               else if p = REMOTE_PROC_DOMAIN_EVENT_IO_ERROR K then remoteDomainReadEvent K p body
               else if p = REMOTE_PROC_DOMAIN_EVENT_IO_ERROR_REASON K then remoteDomainReadEvent K p body
               else if p = REMOTE_PROC_DOMAIN_EVENT_GRAPHICS K then remoteDomainReadEvent K p body
               else None)
        in case event of
             None \<Rightarrow> (-1, priv)
           | Some ev \<Rightarrow> (0, priv\<lparr> eventQueue := eventQueue priv @ [ev] \<rparr>))"

text \<open>
  \<open>processCallDispatchStream\<close>, lines 5546-5651. The first loop leaves the registry at the
  first stream for which the loop condition
  \<open>privst->serial != hdr->serial && privst->proc_nr != hdr->proc\<close> is false. \<open>avail\<close> and
  \<open>need\<close> are C \<open>int\<close>s, compared as signed values; \<open>incoming\<close> keeps the bytes below
  \<open>incomingOffset\<close> and the payload is copied behind them.
\<close>

definition processCallDispatchStream ::
  "remote_env \<Rightarrow> private_data \<Rightarrow> remote_message_header \<Rightarrow> byte list \<Rightarrow> int \<times> private_data" where
  "processCallDispatchStream K priv hdr body =
     (case find (\<lambda>s. \<not> (st_serial (strm priv s) \<noteq> hdr_serial hdr \<and>
                          st_proc_nr (strm priv s) \<noteq> hdr_proc hdr)) (streams priv) of
        None \<Rightarrow> (-1, priv)
      | Some privst \<Rightarrow>
          let thecall = find (\<lambda>t. \<not> serial (calls priv t) \<noteq> hdr_serial hdr) (waitDispatch priv);
              stv = strm priv privst
          in
          if hdr_status hdr = REMOTE_CONTINUE then
            (let avail = incomingLength stv - incomingOffset stv;
                 need = priv_bufferLength priv - priv_bufferOffset priv
             in if sint need > sint avail \<and> oom priv then (-1, priv)
                else
                  let stv1 = (if sint need > sint avail
                              then stv\<lparr> incomingLength := incomingLength stv + (need - avail) \<rparr>
                              else stv);
                      stv2 = stv1\<lparr> incoming := take (unat (incomingOffset stv1)) (incoming stv1) @ body,
                                   incomingOffset := incomingOffset stv1 + need \<rparr>
                  in (case thecall of
                        Some t \<Rightarrow>
                          if want_reply (calls priv t)
                          then (0, priv\<lparr> strm := (strm priv)(privst := stv2),
                                          calls := (calls priv)(t := (calls priv t)\<lparr> mode := REMOTE_MODE_COMPLETE \<rparr>) \<rparr>)
                          else (0, priv\<lparr> strm := (strm priv)(privst := remoteStreamEventTimerUpdate K stv2) \<rparr>)
                      | None \<Rightarrow>
                          (0, priv\<lparr> strm := (strm priv)(privst := remoteStreamEventTimerUpdate K stv2) \<rparr>)))
          else if hdr_status hdr = REMOTE_OK then
            (case thecall of
               None \<Rightarrow> (-1, priv)
             | Some t \<Rightarrow>
                 (0, priv\<lparr> calls := (calls priv)(t := (calls priv t)\<lparr> mode := REMOTE_MODE_COMPLETE \<rparr>) \<rparr>))
          else if hdr_status hdr = REMOTE_ERROR then
            (if (case thecall of Some t \<Rightarrow> want_reply (calls priv t) | None \<Rightarrow> False) then
               (case thecall of
                  None \<Rightarrow> (-1, priv)
                | Some t \<Rightarrow>
                    (case xdr_remote_error K body of
                       None \<Rightarrow> (-1, priv\<lparr> calls := (calls priv)(t := (calls priv t)\<lparr> err := zero_error \<rparr>) \<rparr>)
                     | Some e \<Rightarrow>
                         (0, priv\<lparr> calls := (calls priv)(t := (calls priv t)\<lparr> err := e,
                                                           mode := REMOTE_MODE_ERROR \<rparr>) \<rparr>)))
             else if has_error stv then (-1, priv)
             else
               (case xdr_remote_error K body of
                  None \<Rightarrow> (-1, priv\<lparr> strm := (strm priv)(privst := stv\<lparr> has_error := True,
                                                              st_err := zero_error \<rparr>) \<rparr>)
                | Some e \<Rightarrow> (0, priv\<lparr> strm := (strm priv)(privst := stv\<lparr> has_error := True,
                                                             st_err := e \<rparr>) \<rparr>)))
          else (-1, priv))"

text \<open>
  \<open>processCallDispatch\<close>, lines 5357-5426. The XDR stream starts behind the length word
  and covers \<open>bufferLength - 4\<close> bytes; the header takes 24 of them. The expected program
  and version come from \<open>flags\<close>, the flags of the thread that runs the dispatch.
\<close>

definition processCallDispatch :: "remote_env \<Rightarrow> private_data \<Rightarrow> u32 \<Rightarrow> int \<times> private_data" where
  "processCallDispatch K priv flags =
     (let xdr = drop 4 (take (unat (priv_bufferLength priv)) (priv_buffer priv));
          priv1 = priv\<lparr> priv_bufferOffset := 4 \<rparr>
      in case xdr_remote_message_header_dec xdr of
           None \<Rightarrow> (-1, priv1)
         | Some hdr \<Rightarrow>
             let priv2 = priv1\<lparr> priv_bufferOffset := priv_bufferOffset priv1 + 24 \<rparr>;
                 body = drop 24 xdr;
                 expectedprog = (if flags AND REMOTE_CALL_QEMU \<noteq> 0 then QEMU_PROGRAM K
                                 else REMOTE_PROGRAM K);
                 expectedvers = (if flags AND REMOTE_CALL_QEMU \<noteq> 0 then QEMU_PROTOCOL_VERSION K
                                 else REMOTE_PROTOCOL_VERSION K)
             in if hdr_prog hdr \<noteq> expectedprog then (-1, priv2)
                else if hdr_vers hdr \<noteq> expectedvers then (-1, priv2)
                else if hdr_type hdr = REMOTE_REPLY then processCallDispatchReply K priv2 hdr body
                else if hdr_type hdr = REMOTE_MESSAGE then
                  processCallDispatchMessage K priv2 (flags AND REMOTE_CALL_IN_OPEN) hdr body
                else if hdr_type hdr = REMOTE_STREAM then processCallDispatchStream K priv2 hdr body
                else (-1, priv2))"

text \<open>
  \<open>remoteIOHandleInput\<close>, lines 5653-5710. Each round of the loop takes the next outcome
  of the transport; when none is left the transport would block.
\<close>

fun remoteIOHandleInput :: "remote_env \<Rightarrow> private_data \<Rightarrow> u32 \<Rightarrow> recv_result list \<Rightarrow> int \<times> private_data" where
  "remoteIOHandleInput K priv flags [] = (0, snd (remoteIOReadMessage priv Recv_EAGAIN))"
| "remoteIOHandleInput K priv flags (r # rx) =
     (case remoteIOReadMessage priv r of
        (rc, priv1) \<Rightarrow>
          if rc < 0 then (-1, priv1)
          else if rc = 0 then (0, priv1)
          else if priv_bufferOffset priv1 = priv_bufferLength priv1 then
            (if priv_bufferOffset priv1 = 4 then
               (case remoteIODecodeMessageLength K priv1 of
                  (rc2, priv2) \<Rightarrow>
                    if rc2 < 0 then (-1, priv2) else remoteIOHandleInput K priv2 flags rx)
             else
               (case processCallDispatch K priv1 flags of
                  (rc2, priv2) \<Rightarrow> (rc2, priv2\<lparr> priv_bufferOffset := 0, priv_bufferLength := 0 \<rparr>)))
          else remoteIOHandleInput K priv1 flags rx)"

subsection \<open>The event loop of the dispatcher\<close>

text \<open>
  One round of \<open>poll\<close> in \<open>remoteIOEventLoop\<close>, as the environment decides it: the return
  value of \<open>poll\<close> after the \<open>repoll\<close> retries and whether \<open>errno\<close> is \<open>EWOULDBLOCK\<close>, the
  events reported on the socket (\<open>fds[0].revents\<close>; \<open>POLLIN\<close> and \<open>POLLOUT\<close> are reported
  only when requested) and on the wake-up pipe (\<open>fds[1].revents\<close>), the result of reading
  the wake-up pipe, and the outcomes of the transport for the writes and reads of this
  round.
\<close>

record poll_result =
  poll_ret :: int
  errno_EWOULDBLOCK :: bool
  POLLIN :: bool
  POLLOUT :: bool
  POLLHUP :: bool
  POLLERR :: bool
  wakeup_revents :: bool
  wakeup_saferead :: int
  sends :: "send_result list"
  recvs :: "recv_result list"

text \<open>\<open>thiscall->next\<close>: the calls behind \<open>thiscall\<close> in the queue.\<close>

definition next_of :: "nat \<Rightarrow> nat list \<Rightarrow> nat list" where
  "next_of thiscall q = (case dropWhile (\<lambda>t. t \<noteq> thiscall) q of [] \<Rightarrow> [] | _ # rest \<Rightarrow> rest)"

definition is_terminal :: "call_mode \<Rightarrow> bool" where
  "is_terminal m = (m = REMOTE_MODE_COMPLETE \<or> m = REMOTE_MODE_ERROR)"

text \<open>
  The code at the label \<open>error\<close>, lines 5886-5895, and the same steps at lines 5866-5874:
  the queue becomes \<open>thiscall->next\<close> and its new head, if any, is signaled.
\<close>

definition pass_the_buck :: "private_data \<Rightarrow> nat \<Rightarrow> private_data" where
  "pass_the_buck priv thiscall =
     (let q = next_of thiscall (waitDispatch priv)
      in priv\<lparr> waitDispatch := q,
               signaled := signaled priv @ (case q of [] \<Rightarrow> [] | h # _ \<Rightarrow> [h]) \<rparr>)"

text \<open>
  Lines 5832-5858: every call other than \<open>thiscall\<close> that is complete or in error is
  taken out of the queue and signaled.
\<close>

definition wake_sleepers :: "private_data \<Rightarrow> nat \<Rightarrow> private_data" where
  "wake_sleepers priv thiscall =
     (let woken = filter (\<lambda>t. t \<noteq> thiscall \<and> is_terminal (mode (calls priv t))) (waitDispatch priv)
      in priv\<lparr> waitDispatch := filter (\<lambda>t. \<not> (t \<noteq> thiscall \<and> is_terminal (mode (calls priv t))))
                                    (waitDispatch priv),
               signaled := signaled priv @ woken \<rparr>)"

text \<open>
  \<open>remoteIOEventLoop\<close>, lines 5717-5896. The list holds the rounds of \<open>poll\<close> that the
  environment provides; the loop is still waiting when they are used up (\<open>None\<close>).
\<close>

fun remoteIOEventLoop ::
  "remote_env \<Rightarrow> private_data \<Rightarrow> u32 \<Rightarrow> nat \<Rightarrow> poll_result list \<Rightarrow> (int \<times> private_data) option" where
  "remoteIOEventLoop K priv flags thiscall [] = None"
| "remoteIOEventLoop K priv flags thiscall (ev # evs) =
     (let events_POLLIN = (list_ex (\<lambda>t. mode (calls priv t) = REMOTE_MODE_WAIT_RX) (waitDispatch priv)
                           \<or> streams priv \<noteq> []);
          events_POLLOUT = list_ex (\<lambda>t. mode (calls priv t) = REMOTE_MODE_WAIT_TX) (waitDispatch priv)
      in
      if wakeup_revents ev \<and> wakeup_saferead ev \<noteq> 1 then Some (-1, pass_the_buck priv thiscall)
      else if poll_ret ev < 0 then
        (if errno_EWOULDBLOCK ev then remoteIOEventLoop K priv flags thiscall evs
         else Some (-1, pass_the_buck priv thiscall))
      else
        (case (if POLLOUT ev \<and> events_POLLOUT then remoteIOHandleOutput priv (sends ev) else (0, priv)) of
           (rc1, priv1) \<Rightarrow>
             if rc1 < 0 then Some (-1, pass_the_buck priv1 thiscall)
             else
               (case (if POLLIN ev \<and> events_POLLIN then remoteIOHandleInput K priv1 flags (recvs ev)
                      else (0, priv1)) of
                  (rc2, priv2) \<Rightarrow>
                    if rc2 < 0 then Some (-1, pass_the_buck priv2 thiscall)
                    else
                      let priv3 = wake_sleepers priv2 thiscall in
                      if is_terminal (mode (calls priv3 thiscall)) then Some (0, pass_the_buck priv3 thiscall)
                      else if POLLHUP ev \<or> POLLERR ev then Some (-1, pass_the_buck priv3 thiscall)
                      else remoteIOEventLoop K priv3 flags thiscall evs)))"

subsection \<open>remoteIO and call\<close>

text \<open>\<open>STRPREFIX (a, b)\<close>: \<open>a\<close> starts with \<open>b\<close>.\<close>

definition STRPREFIX :: "string \<Rightarrow> string \<Rightarrow> bool" where
  "STRPREFIX a b = (take (length b) a = b)"

text \<open>What \<open>virRaiseErrorFull\<close> is given: the error the caller receives.\<close>

record virError =
  v_domain :: u32
  v_code :: u32
  v_level :: u32
  v_str1 :: "string option"
  v_str2 :: "string option"
  v_str3 :: "string option"
  v_int1 :: u32
  v_int2 :: u32
  v_message :: string

definition virRaiseErrorFull ::
  "u32 \<Rightarrow> u32 \<Rightarrow> u32 \<Rightarrow> string option \<Rightarrow> string option \<Rightarrow> string option \<Rightarrow> u32 \<Rightarrow> u32 \<Rightarrow> string \<Rightarrow> virError" where
  "virRaiseErrorFull d c l s1 s2 s3 i1 i2 m =
     \<lparr> v_domain = d, v_code = c, v_level = l, v_str1 = s1, v_str2 = s2, v_str3 = s3,
       v_int1 = i1, v_int2 = i2, v_message = m \<rparr>"

text \<open>
  The code of \<open>remoteIO\<close> at the label \<open>cleanup\<close>, lines 6039-6118: the return value and
  the error raised to the caller, if any. The \<open>switch\<close> on \<open>err.code\<close> rewrites the code
  in place before the tests for the missing procedure.
\<close>

definition remoteIO_cleanup :: "remote_env \<Rightarrow> u32 \<Rightarrow> remote_thread_call \<Rightarrow> int \<times> virError option" where
  "remoteIO_cleanup K flags thiscall =
     (if mode thiscall = REMOTE_MODE_ERROR then
        let e0 = err thiscall;
            e = (if code e0 = VIR_WAR_NO_NWFILTER K then e0
                 else if code e0 = VIR_ERR_INVALID_NWFILTER K \<or> code e0 = VIR_ERR_NO_NWFILTER K
                         \<or> code e0 = VIR_ERR_BUILD_FIREWALL K then
                   (if domain e0 \<noteq> VIR_FROM_NWFILTER K then e0\<lparr> code := code e0 + 4 \<rparr> else e0)
                 else if code e0 = VIR_WAR_NO_SECRET K then
                   (if domain e0 = VIR_FROM_QEMU K then e0\<lparr> code := VIR_ERR_OPERATION_TIMEOUT K \<rparr> else e0)
                 else if code e0 = VIR_ERR_INVALID_SECRET K then
                   (if domain e0 = VIR_FROM_XEN K then e0\<lparr> code := VIR_ERR_MIGRATE_PERSIST_FAILED K \<rparr> else e0)
                 else e0);
            unknown_procedure =
              (domain e = VIR_FROM_REMOTE K \<and> code e = VIR_ERR_RPC K \<and> level e = VIR_ERR_ERROR K \<and>
               (case message e of None \<Rightarrow> False | Some m \<Rightarrow> STRPREFIX m ''unknown procedure''))
        in if flags AND REMOTE_CALL_QUIET_MISSING_RPC \<noteq> 0 \<and> unknown_procedure then (-2, None)
           else if unknown_procedure then
             (-1, Some (virRaiseErrorFull (domain e) (VIR_ERR_NO_SUPPORT K) (level e)
                          (str1 e) (str2 e) (str3 e) (int1 e) (int2 e)
                          (case message e of None \<Rightarrow> [] | Some m \<Rightarrow> m)))
           else
             (-1, Some (virRaiseErrorFull (domain e) (code e) (level e)
                          (str1 e) (str2 e) (str3 e) (int1 e) (int2 e)
                          (case message e of None \<Rightarrow> ''unknown'' | Some m \<Rightarrow> m)))
      else (0, None))"

text \<open>
  What the environment decides in one run of \<open>remoteIO\<close>: the result of the write to the
  wake-up pipe, whether \<open>virCondWait\<close> succeeds, what the other threads do to the
  connection while this thread sleeps on its condition variable, and the rounds of
  \<open>poll\<close> once this thread is the dispatcher.
\<close>

record io_env =
  wakeup_safewrite :: int
  cond_wait_ok :: bool
  while_asleep :: "private_data \<Rightarrow> private_data"
  polls :: "poll_result list"

text \<open>
  \<open>remoteIO\<close>, lines 5931-6119. The result is the return value, the error raised to the
  caller by the code at \<open>cleanup\<close>, and the connection; \<open>None\<close> when the event loop is
  still waiting at the end of the rounds provided.
\<close>

definition remoteIO ::
  "remote_env \<Rightarrow> private_data \<Rightarrow> u32 \<Rightarrow> nat \<Rightarrow> io_env \<Rightarrow> (int \<times> virError option \<times> private_data) option" where
  "remoteIO K priv flags thiscall env =
     (let dispatch = (\<lambda>p.
            case remoteIOEventLoop K p flags thiscall (polls env) of
              None \<Rightarrow> None
            | Some (rv, p') \<Rightarrow>
                if rv < 0 then Some (-1, None, p')
                else (case remoteIO_cleanup K flags (calls p' thiscall) of
                        (rv', raised) \<Rightarrow> Some (rv', raised, p')))
      in
      if waitDispatch priv \<noteq> [] then
        (let priv1 = priv\<lparr> waitDispatch := waitDispatch priv @ [thiscall] \<rparr> in
         if wakeup_safewrite env < 0 then Some (-1, None, priv1)
         else if wakeup_safewrite env \<noteq> 1 then Some (-1, None, priv1)
         else
           let priv2 = while_asleep env priv1 in
           if \<not> cond_wait_ok env then
             Some (-1, None, priv2\<lparr> waitDispatch := remove1 thiscall (waitDispatch priv2) \<rparr>)
           else if is_terminal (mode (calls priv2 thiscall)) then
             (case remoteIO_cleanup K flags (calls priv2 thiscall) of
                (rv', raised) \<Rightarrow> Some (rv', raised, priv2))
           else dispatch priv2)
      else dispatch (priv\<lparr> waitDispatch := [thiscall] \<rparr>))"

text \<open>\<open>call\<close>, lines 6122-6147.\<close>

definition call ::
  "remote_env \<Rightarrow> private_data \<Rightarrow> u32 \<Rightarrow> u32 \<Rightarrow> (nat \<Rightarrow> byte list option) \<Rightarrow>
   (byte list \<Rightarrow> byte list option) \<Rightarrow> io_env \<Rightarrow> (int \<times> virError option \<times> private_data) option" where
  "call K priv flags proc args_filter retf env =
     (case prepareCall K priv flags proc args_filter retf of
        (None, priv1) \<Rightarrow> Some (-1, None, priv1)
      | (Some thiscall, priv1) \<Rightarrow> remoteIO K priv1 flags thiscall env)"

text \<open>\<open>remoteStreamPacket\<close>, lines 4009-4104: the call is built and given to \<open>remoteIO\<close>.\<close>

definition remoteStreamPacket ::
  "remote_env \<Rightarrow> private_data \<Rightarrow> nat \<Rightarrow> u32 \<Rightarrow> byte list \<Rightarrow> io_env \<Rightarrow> (int \<times> private_data) option" where
  "remoteStreamPacket K priv st status data env =
     (case remoteStreamPacket_call K priv st status data of
        (None, priv1) \<Rightarrow> Some (-1, priv1)
      | (Some thiscall, priv1) \<Rightarrow>
          (case remoteIO K priv1 0 thiscall env of
             None \<Rightarrow> None
           | Some (rc, raised, priv2) \<Rightarrow>
               if rc < 0 then Some (-1, priv2) else Some (int (length data), priv2)))"

subsection \<open>Receiving from a stream\<close>

text \<open>
  \<open>remoteStreamRecv\<close>, lines 4185-4264, in three parts. \<open>nbytes\<close> is a \<open>size_t\<close> (64 bits).
  Lines 4236-4254 copy out of the inbound buffer: \<open>want\<close> is a C \<open>int\<close> initialised from
  the unsigned \<open>incomingOffset\<close>; it is converted to \<open>size_t\<close> for the comparison with
  \<open>nbytes\<close> and for \<open>memcpy\<close>, and to \<open>unsigned int\<close> for the comparison with
  \<open>incomingOffset\<close>. The result is the return value, the bytes copied to the caller's
  buffer and the connection.
\<close>

definition remoteStreamRecv_copy ::
  "remote_env \<Rightarrow> private_data \<Rightarrow> nat \<Rightarrow> 64 word \<Rightarrow> int \<times> byte list \<times> private_data" where
  "remoteStreamRecv_copy K priv st nbytes =
     (let privst = strm priv st in
      if incomingOffset privst \<noteq> 0 then
        let want0 = incomingOffset privst;
            want = (if (scast want0 :: 64 word) > nbytes then (ucast nbytes :: u32) else want0);
            data = take (unat (scast want :: 64 word)) (incoming privst);
            privst1 =
              (if want < incomingOffset privst
               then privst\<lparr> incoming := take (unat (incomingOffset privst - want))
                                          (drop (unat (scast want :: 64 word)) (incoming privst)),
                              incomingOffset := incomingOffset privst - want \<rparr>
               else privst\<lparr> incoming := [], incomingOffset := 0, incomingLength := 0 \<rparr>)
        in (sint want, data, priv\<lparr> strm := (strm priv)(st := remoteStreamEventTimerUpdate K privst1) \<rparr>)
      else (0, [], priv\<lparr> strm := (strm priv)(st := remoteStreamEventTimerUpdate K privst) \<rparr>))"

text \<open>The label \<open>cleanup\<close>, lines 4258-4263: the stream is released when \<open>rv\<close> is -1.\<close>

definition remoteStreamRecv_cleanup ::
  "private_data \<Rightarrow> nat \<Rightarrow> int \<Rightarrow> byte list \<Rightarrow> (int \<times> byte list \<times> private_data) option" where
  "remoteStreamRecv_cleanup priv st rv data =
     (if rv = -1 then
        (case remoteStreamRelease priv st of None \<Rightarrow> None | Some priv1 \<Rightarrow> Some (rv, data, priv1))
      else Some (rv, data, priv))"

definition remoteStreamRecv ::
  "remote_env \<Rightarrow> private_data \<Rightarrow> nat \<Rightarrow> u32 \<Rightarrow> 64 word \<Rightarrow> io_env \<Rightarrow>
   (int \<times> byte list \<times> private_data) option" where
  "remoteStreamRecv K priv st st_flags nbytes env =
     (if remoteStreamHasError priv st then remoteStreamRecv_cleanup priv st (-1) []
      else if incomingOffset (strm priv st) = 0 then
        (if st_flags AND VIR_STREAM_NONBLOCK K \<noteq> 0 then remoteStreamRecv_cleanup priv st (-2) []
         else if oom priv then remoteStreamRecv_cleanup priv st (-1) []
         else
           let thiscall = brk priv;
               c = calloc_call\<lparr> mode := REMOTE_MODE_WAIT_RX, serial := st_serial (strm priv st),
                     proc_nr := st_proc_nr (strm priv st), want_reply := True \<rparr>
           in if cond_init_fails priv then remoteStreamRecv_cleanup priv st (-1) []
              else
                (case remoteIO K (priv\<lparr> brk := Suc (brk priv), calls := (calls priv)(thiscall := c) \<rparr>)
                        0 thiscall env of
                   None \<Rightarrow> None
                 | Some (rc, raised, priv2) \<Rightarrow>
                     if rc < 0 then remoteStreamRecv_cleanup priv2 st (-1) []
                     else (case remoteStreamRecv_copy K priv2 st nbytes of
                             (rv, data, priv3) \<Rightarrow> remoteStreamRecv_cleanup priv3 st rv data)))
      else (case remoteStreamRecv_copy K priv st nbytes of
              (rv, data, priv3) \<Rightarrow> remoteStreamRecv_cleanup priv3 st rv data))"

subsection \<open>A concrete environment\<close>

text \<open>
  The values of the parameters in the libvirt release this driver belongs to
  (\<open>remote_protocol.x\<close>, \<open>qemu_protocol.x\<close>, \<open>virterror.h\<close>, \<open>libvirt.h\<close>), used where a
  statement is evaluated on a concrete input. The error record is decoded here as three
  XDR integers (code, domain, level) with every other field absent, and an event reader
  keeps the body of the frame as the event.
\<close>

definition xdr_remote_error_ints :: "byte list \<Rightarrow> remote_error option" where
  "xdr_remote_error_ints bs =
     (case (xdr_u_int_dec bs, xdr_u_int_dec (drop 4 bs), xdr_u_int_dec (drop 8 bs)) of
        (Some c, Some d, Some l) \<Rightarrow> Some (zero_error\<lparr> code := c, domain := d, level := l \<rparr>)
      | _ \<Rightarrow> None)"

definition libvirt_env :: remote_env where
  "libvirt_env = \<lparr>
     REMOTE_PROGRAM = 0x20008086, REMOTE_PROTOCOL_VERSION = 1,
     QEMU_PROGRAM = 0x20008087, QEMU_PROTOCOL_VERSION = 1,
     REMOTE_MESSAGE_MAX = 262144,
     xdr_remote_error = xdr_remote_error_ints,
     VIR_FROM_REMOTE = 13, VIR_FROM_NWFILTER = 33, VIR_FROM_QEMU = 10, VIR_FROM_XEN = 1,
     VIR_ERR_ERROR = 2, VIR_ERR_RPC = 39, VIR_ERR_NO_SUPPORT = 3,
     VIR_WAR_NO_NWFILTER = 60, VIR_ERR_INVALID_NWFILTER = 61, VIR_ERR_NO_NWFILTER = 62,
     VIR_ERR_BUILD_FIREWALL = 63, VIR_WAR_NO_SECRET = 64, VIR_ERR_INVALID_SECRET = 65,
     VIR_ERR_OPERATION_TIMEOUT = 68, VIR_ERR_MIGRATE_PERSIST_FAILED = 69,
     VIR_STREAM_NONBLOCK = 1, VIR_STREAM_EVENT_READABLE = 1, VIR_STREAM_EVENT_WRITABLE = 2,
     REMOTE_PROC_DOMAIN_EVENT_LIFECYCLE = 107, REMOTE_PROC_DOMAIN_EVENT_REBOOT = 169,
     REMOTE_PROC_DOMAIN_EVENT_RTC_CHANGE = 170, REMOTE_PROC_DOMAIN_EVENT_WATCHDOG = 171,
     REMOTE_PROC_DOMAIN_EVENT_IO_ERROR = 172, REMOTE_PROC_DOMAIN_EVENT_IO_ERROR_REASON = 195,
     REMOTE_PROC_DOMAIN_EVENT_GRAPHICS = 173,
     remoteDomainReadEvent = (\<lambda>p body. Some body) \<rparr>"

text \<open>A connection as \<open>VIR_ALLOC\<close> leaves it: everything zero, nothing on the heap.\<close>

definition calloc_priv :: private_data where
  "calloc_priv = \<lparr> counter = 0, priv_buffer = [], priv_bufferLength = 0, priv_bufferOffset = 0,
     waitDispatch = [], calls = (\<lambda>_. calloc_call), streams = [], strm = (\<lambda>_. calloc_stream),
     signaled = [], eventQueue = [], brk = 0, oom = False, cond_init_fails = False \<rparr>"

subsection \<open>A connection's calls in sequence\<close>

text \<open>
  One invocation of \<open>prepareCall\<close> during the lifetime of a connection: its arguments and
  the state of the C runtime at that moment.
\<close>

record call_request =
  rq_flags :: u32
  rq_proc :: u32
  rq_args_filter :: "nat \<Rightarrow> byte list option"
  rq_ret_filter :: "byte list \<Rightarrow> byte list option"
  rq_oom :: bool
  rq_cond_init_fails :: bool

text \<open>
  The invocations of \<open>prepareCall\<close> on one connection, in order (no other code writes
  \<open>priv->counter\<close>): for every call that is created, its address and the serial number
  it has been given.
\<close>

fun prepareCalls :: "remote_env \<Rightarrow> private_data \<Rightarrow> call_request list \<Rightarrow> (nat \<times> u32) list \<times> private_data" where
  "prepareCalls K priv [] = ([], priv)"
| "prepareCalls K priv (r # rs) =
     (case prepareCall K (priv\<lparr> oom := rq_oom r, cond_init_fails := rq_cond_init_fails r \<rparr>)
             (rq_flags r) (rq_proc r) (rq_args_filter r) (rq_ret_filter r) of
        (None, priv1) \<Rightarrow> prepareCalls K priv1 rs
      | (Some a, priv1) \<Rightarrow>
          (case prepareCalls K priv1 rs of
             (created, priv2) \<Rightarrow> ((a, serial (calls priv1 a)) # created, priv2)))"

subsection \<open>Concrete inputs\<close>

text \<open>\<open>xdr_void\<close> as an encoder of arguments and as a decoder of results: no bytes.\<close>

definition xdr_void_enc :: "nat \<Rightarrow> byte list option" where
  "xdr_void_enc n = Some []"

definition xdr_void_dec :: "byte list \<Rightarrow> byte list option" where
  "xdr_void_dec bs = Some []"

text \<open>
  The start of \<open>remoteDomainMigratePrepareTunnel3\<close>, lines 4749-4768, on a new connection,
  followed by a first \<open>remoteStreamSend\<close>: the stream is opened with the current value of
  the counter (address 0), \<open>call\<close> prepares the RPC (address 1), and the packet of the
  send is built (address 2). 214 stands for the procedure number.
\<close>

definition tunnel_priv1 :: private_data where
  "tunnel_priv1 = snd (remoteStreamOpen calloc_priv 214 (counter calloc_priv))"

definition tunnel_priv2 :: private_data where
  "tunnel_priv2 = snd (prepareCall libvirt_env tunnel_priv1 0 214 xdr_void_enc Some)"

definition tunnel_priv3 :: private_data where
  "tunnel_priv3 = snd (remoteStreamPacket_call libvirt_env tunnel_priv2 0 REMOTE_CONTINUE [1, 2, 3])"


definition unknown_procedure_call :: remote_thread_call where
  "unknown_procedure_call = calloc_call\<lparr> mode := REMOTE_MODE_ERROR, want_reply := True,
     err := \<lparr> code = 39, domain = 13, message = Some ''unknown procedure: 66'', level = 2,
              str1 = None, str2 = None, str3 = None, int1 = 0, int2 = 0 \<rparr> \<rparr>"

text \<open>
  A connection with one call waiting for its reply (address 0, serial 7, procedure 66),
  and a reply to it with status \<open>REMOTE_ERROR\<close> whose body holds code 61, domain 30 and
  level 2.
\<close>

definition one_call_priv :: private_data where
  "one_call_priv = calloc_priv\<lparr> counter := 8, brk := 1, waitDispatch := [0],
     calls := (calls calloc_priv)(0 := calloc_call\<lparr> mode := REMOTE_MODE_WAIT_RX, serial := 7,
                proc_nr := 66, want_reply := True, ret_filter := Some \<rparr>) \<rparr>"



text \<open>
  Two streams of the same procedure on one connection: an older one with serial 5
  (address 0) and a newer one with serial 9 (address 1, at the front of the registry).
  \<open>stream_frame\<close> is a frame of type \<open>REMOTE_STREAM\<close> and status \<open>REMOTE_CONTINUE\<close> for
  serial 5 and procedure 214, with the three bytes \<open>abc\<close> as payload.
\<close>

definition two_streams_priv :: private_data where
  "two_streams_priv = snd (remoteStreamOpen (snd (remoteStreamOpen calloc_priv 214 5)) 214 9)"

definition stream_frame :: "byte list" where
  "stream_frame = xdr_u_int_enc 31 @
     xdr_remote_message_header_enc \<lparr> hdr_prog = 0x20008086, hdr_vers = 1, hdr_proc = 214,
       hdr_type = REMOTE_STREAM, hdr_serial = 5, hdr_status = REMOTE_CONTINUE \<rparr> @ [97, 98, 99]"




text \<open>
  One stream on a new connection (address 0, serial 5, procedure 214); the same stream
  with an error stored on it; an environment in which nothing arrives; and an
  environment whose first round of \<open>poll\<close> reports the socket readable and delivers
  \<open>stream_frame\<close> in two reads, the length word first.
\<close>

definition one_stream_priv :: private_data where
  "one_stream_priv = snd (remoteStreamOpen calloc_priv 214 5)"

definition errored_stream_priv :: private_data where
  "errored_stream_priv = one_stream_priv\<lparr>
     strm := (strm one_stream_priv)(0 := (strm one_stream_priv 0)\<lparr> has_error := True,
       st_err := zero_error\<lparr> code := 1, domain := 13, level := 2 \<rparr> \<rparr>) \<rparr>"

definition no_io :: io_env where
  "no_io = \<lparr> wakeup_safewrite = 1, cond_wait_ok = True, while_asleep = id, polls = [] \<rparr>"

definition stream_data_poll :: poll_result where
  "stream_data_poll = \<lparr> poll_ret = 1, errno_EWOULDBLOCK = False, POLLIN = True, POLLOUT = False,
     POLLHUP = False, POLLERR = False, wakeup_revents = False, wakeup_saferead = 0, sends = [],
     recvs = [Received (take 4 stream_frame), Received (drop 4 stream_frame)] \<rparr>"

definition stream_data_io :: io_env where
  "stream_data_io = \<lparr> wakeup_safewrite = 1, cond_wait_ok = True, while_asleep = id,
     polls = [stream_data_poll] \<rparr>"

text \<open>The stream with five bytes in its inbound buffer.\<close>

definition buffered_stream_priv :: private_data where
  "buffered_stream_priv = one_stream_priv\<lparr>
     strm := (strm one_stream_priv)(0 := (strm one_stream_priv 0)\<lparr> incoming := [97, 98, 99, 100, 101],
       incomingOffset := 5, incomingLength := 5 \<rparr>) \<rparr>"

text \<open>The same stream, five bytes in its inbound buffer, with an error stored on it.\<close>

definition errored_buffered_stream_priv :: private_data where
  "errored_buffered_stream_priv = buffered_stream_priv\<lparr>
     strm := (strm buffered_stream_priv)(0 := (strm buffered_stream_priv 0)\<lparr> has_error := True,
       st_err := zero_error\<lparr> code := 1, domain := 13, level := 2 \<rparr> \<rparr>) \<rparr>"

text \<open>
  The connection \<open>one_stream_priv\<close> after a blocking receive has waited in the environment
  \<open>stream_data_io\<close>: the pseudo-call of the receive (address 1) is complete and off the
  queue, and the three bytes of \<open>stream_frame\<close> are in the inbound buffer of the stream.
\<close>

definition stream_after_wait :: private_data where
  "stream_after_wait = one_stream_priv\<lparr> brk := 2, priv_buffer := stream_frame,
     calls := (calls one_stream_priv)(1 := calloc_call\<lparr> mode := REMOTE_MODE_COMPLETE, serial := 5,
                proc_nr := 214, want_reply := True \<rparr>),
     strm := (strm one_stream_priv)(0 := (strm one_stream_priv 0)\<lparr> incoming := [97, 98, 99],
                incomingOffset := 3, incomingLength := 3 \<rparr>) \<rparr>"



text \<open>
  Frames of type \<open>REMOTE_MESSAGE\<close>: a lifecycle event (procedure 107) and an event with a
  procedure number the driver does not know (9999); the reply with status \<open>REMOTE_OK\<close> to
  the call of \<open>one_call_priv\<close>; and rounds of \<open>poll\<close> that deliver each of them in two
  reads, the length word first.
\<close>

definition event_frame :: "byte list" where
  "event_frame = xdr_u_int_enc 32 @
     xdr_remote_message_header_enc \<lparr> hdr_prog = 0x20008086, hdr_vers = 1, hdr_proc = 107,
       hdr_type = REMOTE_MESSAGE, hdr_serial = 0, hdr_status = REMOTE_OK \<rparr> @ [0, 0, 0, 1]"

definition unknown_event_frame :: "byte list" where
  "unknown_event_frame = xdr_u_int_enc 32 @
     xdr_remote_message_header_enc \<lparr> hdr_prog = 0x20008086, hdr_vers = 1, hdr_proc = 9999,
       hdr_type = REMOTE_MESSAGE, hdr_serial = 0, hdr_status = REMOTE_OK \<rparr> @ [0, 0, 0, 1]"

definition ok_reply_frame :: "byte list" where
  "ok_reply_frame = xdr_u_int_enc 32 @
     xdr_remote_message_header_enc \<lparr> hdr_prog = 0x20008086, hdr_vers = 1, hdr_proc = 66,
       hdr_type = REMOTE_REPLY, hdr_serial = 7, hdr_status = REMOTE_OK \<rparr> @ [1, 2, 3, 4]"

definition readable_poll :: "byte list \<Rightarrow> poll_result" where
  "readable_poll frame = \<lparr> poll_ret = 1, errno_EWOULDBLOCK = False, POLLIN = True, POLLOUT = False,
     POLLHUP = False, POLLERR = False, wakeup_revents = False, wakeup_saferead = 0, sends = [],
     recvs = [Received (take 4 frame), Received (drop 4 frame)] \<rparr>"

section \<open>Properties\<close>

subsection \<open>Bounds on the length word\<close>

lemma xdr_u_int_dec_take: "4 \<le> n \<Longrightarrow> xdr_u_int_dec (take n bs) = xdr_u_int_dec bs"
proof (cases bs)
  case Nil then show ?thesis by simp
next
  case (Cons a l1)
  note c1 = this
  assume n: "4 \<le> n"
  define m where "m = n - 4"
  have m: "n = Suc (Suc (Suc (Suc m)))"
    using n by (simp add: m_def)
  show ?thesis
  proof (cases l1)
    case Nil with c1 m show ?thesis by simp
  next
    case (Cons b l2)
    note c2 = this
    show ?thesis
    proof (cases l2)
      case Nil with c1 c2 m show ?thesis by simp
    next
      case (Cons c l3)
      note c3 = this
      show ?thesis
      proof (cases l3)
        case Nil with c1 c2 c3 m show ?thesis by simp
      next
        case (Cons d l4)
        with c1 c2 c3 m show ?thesis by simp
      qed
    qed
  qed
qed

lemma remoteIODecodeMessageLength_word:
  assumes bl: "priv_bufferLength priv = 4"
      and len: "xdr_u_int_dec (priv_buffer priv) = Some len"
  shows "remoteIODecodeMessageLength K priv =
      (if len < 4 \<or> len - 4 > REMOTE_MESSAGE_MAX K then (-1, priv)
       else (0, priv\<lparr> priv_bufferLength := len \<rparr>))"
proof -
  have dec: "xdr_u_int_dec (take (unat (priv_bufferLength priv)) (priv_buffer priv)) = Some len"
    using bl len by (simp add: xdr_u_int_dec_take)
  show ?thesis
    unfolding remoteIODecodeMessageLength_def dec
    by (simp add: Let_def REMOTE_MESSAGE_HEADER_XDR_LEN_def bl)
qed

lemma length_bounds_nat:
  fixes len m :: u32
  shows "(len < 4 \<or> len - 4 > m) =
         (\<not> (unat REMOTE_MESSAGE_HEADER_XDR_LEN \<le> unat len \<and> unat len \<le> 4 + unat m))"
proof (cases "len < 4")
  case True
  then show ?thesis
    by (simp add: word_less_nat_alt REMOTE_MESSAGE_HEADER_XDR_LEN_def)
next
  case False
  then have "(len - 4 > m) = (\<not> unat len \<le> 4 + unat m)"
    by (auto simp add: word_less_nat_alt not_le unat_sub word_le_nat_alt)
  with False show ?thesis
    by (simp add: word_less_nat_alt REMOTE_MESSAGE_HEADER_XDR_LEN_def)
qed

text \<open>
  Claim C7, as amended. When the four bytes of the length word have been read
  (\<open>bufferLength = 4\<close>) and decode to \<open>len\<close>, \<open>remoteIODecodeMessageLength\<close> accepts the
  frame exactly when \<open>len\<close>, the declared total length including the length word, is at
  least \<open>REMOTE_MESSAGE_HEADER_XDR_LEN\<close> and at most \<open>4 + REMOTE_MESSAGE_MAX\<close>. The lower
  bound is 4, the size of the length word, and not the size of the frame header (the
  length word and the 24 bytes of \<open>remote_message_header\<close>). On acceptance the frame
  buffer is to be filled up to \<open>len\<close> bytes, which its capacity \<open>4 + REMOTE_MESSAGE_MAX\<close>
  holds; otherwise the function returns -1 with the connection untouched, so nothing of
  the body has been read.
\<close>

theorem remoteIODecodeMessageLength_bounds:
  assumes bl: "priv_bufferLength priv = 4"
      and len: "xdr_u_int_dec (priv_buffer priv) = Some len"
  shows "(if unat REMOTE_MESSAGE_HEADER_XDR_LEN \<le> unat len \<and> unat len \<le> 4 + unat (REMOTE_MESSAGE_MAX K)
          then remoteIODecodeMessageLength K priv = (0, priv\<lparr> priv_bufferLength := len \<rparr>)
          else remoteIODecodeMessageLength K priv = (-1, priv))"
  unfolding remoteIODecodeMessageLength_word [OF bl len] length_bounds_nat by simp

theorem remoteIODecodeMessageLength_bounds_witness:
  "priv_bufferLength (calloc_priv\<lparr> priv_buffer := [0, 0, 0, 28], priv_bufferLength := 4 \<rparr>) = 4 \<and>
   xdr_u_int_dec (priv_buffer (calloc_priv\<lparr> priv_buffer := [0, 0, 0, 28], priv_bufferLength := 4 \<rparr>)) = Some 28 \<and>
   remoteIODecodeMessageLength libvirt_env (calloc_priv\<lparr> priv_buffer := [0, 0, 0, 28], priv_bufferLength := 4 \<rparr>)
     = (0, calloc_priv\<lparr> priv_buffer := [0, 0, 0, 28], priv_bufferLength := 28 \<rparr>)"
proof -
  let ?p = "calloc_priv\<lparr> priv_buffer := [0, 0, 0, 28], priv_bufferLength := 4 \<rparr>"
  have h1: "priv_bufferLength ?p = 4" by simp
  have h2: "xdr_u_int_dec (priv_buffer ?p) = Some 28" by simp
  have b: "unat REMOTE_MESSAGE_HEADER_XDR_LEN \<le> unat (28 :: u32) \<and>
           unat (28 :: u32) \<le> 4 + unat (REMOTE_MESSAGE_MAX libvirt_env)"
    by (simp add: REMOTE_MESSAGE_HEADER_XDR_LEN_def libvirt_env_def)
  have "remoteIODecodeMessageLength libvirt_env ?p = (0, ?p\<lparr> priv_bufferLength := 28 \<rparr>)"
    using remoteIODecodeMessageLength_bounds [OF h1 h2, of libvirt_env] b by (simp only: if_True)
  then show ?thesis using h1 h2 by simp
qed

text \<open>
  What the bounds mean for the read sub-machine: when the length word (the first four
  bytes received on an empty frame buffer) declares a length outside the bounds,
  \<open>remoteIOHandleInput\<close> returns -1 at once, with only the length word in the frame
  buffer; what the transport would deliver next is not read.
\<close>

lemma bad_length_stops_reading:
  assumes e: "priv_bufferLength priv = 0" "priv_bufferOffset priv = 0"
      and w: "w = [a, b, c, d]"
      and len: "xdr_u_int_dec w = Some len"
      and bad: "\<not> (unat REMOTE_MESSAGE_HEADER_XDR_LEN \<le> unat len \<and> unat len \<le> 4 + unat (REMOTE_MESSAGE_MAX K))"
  shows "remoteIOHandleInput K priv flags (Received w # rx) =
           (-1, priv\<lparr> priv_bufferLength := 4, priv_buffer := w, priv_bufferOffset := 4 \<rparr>)"
proof -
  let ?p1 = "priv\<lparr> priv_bufferLength := 4, priv_buffer := w, priv_bufferOffset := 4 \<rparr>"
  have rm: "remoteIOReadMessage priv (Received w) = (4, ?p1)"
    using e w by (simp add: remoteIOReadMessage_def remoteIOReadBuffer_def Let_def)
  have h1: "priv_bufferLength ?p1 = 4" by simp
  have h2: "xdr_u_int_dec (priv_buffer ?p1) = Some len" using len by simp
  have dm: "remoteIODecodeMessageLength K ?p1 = (-1, ?p1)"
    unfolding remoteIODecodeMessageLength_word [OF h1 h2] length_bounds_nat using bad by simp
  show ?thesis
    by (simp add: rm dm)
qed

text \<open>
  The claim as stated, with the header size as the lower bound, fails: a declared length
  of 8 is less than the size of a frame header, whose 24 bytes do not fit behind the
  length word, and \<open>remoteIODecodeMessageLength\<close> accepts it. The 4 remaining bytes of the
  frame are read into the frame buffer, and the frame is refused only by
  \<open>processCallDispatch\<close>, when the header cannot be decoded.
\<close>

theorem short_frame_rejected_at_dispatch:
  "remoteIODecodeMessageLength libvirt_env
     (calloc_priv\<lparr> priv_buffer := [0, 0, 0, 8], priv_bufferLength := 4, priv_bufferOffset := 4 \<rparr>)
     = (0, calloc_priv\<lparr> priv_buffer := [0, 0, 0, 8], priv_bufferLength := 8, priv_bufferOffset := 4 \<rparr>) \<and>
   remoteIOHandleInput libvirt_env calloc_priv 0 [Received [0, 0, 0, 8], Received [1, 2, 3, 4]]
     = (-1, calloc_priv\<lparr> priv_buffer := [0, 0, 0, 8, 1, 2, 3, 4] \<rparr>) \<and>
   xdr_remote_message_header_dec (drop 4 [0, 0, 0, 8, 1, 2, 3, 4]) = None"
  by (simp add: remoteIODecodeMessageLength_def remoteIOReadMessage_def remoteIOReadBuffer_def
      processCallDispatch_def xdr_remote_message_header_dec_def calloc_priv_def libvirt_env_def
      REMOTE_MESSAGE_HEADER_XDR_LEN_def Let_def)

subsection \<open>The want-reply flag and the mode after transmission\<close>

lemma prepareCall_Some:
  assumes "prepareCall K priv flags proc af rf = (Some a, priv1)"
  shows "a = brk priv \<and> want_reply (calls priv1 a) \<and> mode (calls priv1 a) = REMOTE_MODE_WAIT_TX \<and>
         serial (calls priv1 a) = counter priv \<and> counter priv1 = counter priv + 1"
  using assms
  by (auto simp add: prepareCall_def Let_def calloc_call_def split: if_splits option.splits)

lemma remoteStreamPacket_call_Some:
  assumes "remoteStreamPacket_call K priv st status data = (Some b, priv2)"
  shows "b = brk priv \<and> mode (calls priv2 b) = REMOTE_MODE_WAIT_TX \<and>
         want_reply (calls priv2 b) = (status = REMOTE_OK \<or> status = REMOTE_ERROR) \<and>
         serial (calls priv2 b) = st_serial (strm priv st) \<and> counter priv2 = counter priv"
  using assms
  by (auto simp add: remoteStreamPacket_call_def Let_def calloc_call_def split: if_splits)

lemma remoteIOWriteMessage_modes:
  assumes "remoteIOWriteMessage p t r = (rc, p')"
  shows "want_reply (calls p' u) = want_reply (calls p u) \<and>
         (mode (calls p' u) = mode (calls p u) \<or>
          mode (calls p' u) = (if want_reply (calls p u) then REMOTE_MODE_WAIT_RX else REMOTE_MODE_COMPLETE))"
  using assms
  by (auto simp add: remoteIOWriteMessage_def Let_def split: if_splits)

lemma remoteIOHandleOutput_loop_modes:
  "remoteIOHandleOutput_loop p ts tx = (rc, p') \<Longrightarrow>
     want_reply (calls p' u) = want_reply (calls p u) \<and>
     (mode (calls p' u) = mode (calls p u) \<or>
      mode (calls p' u) = (if want_reply (calls p u) then REMOTE_MODE_WAIT_RX else REMOTE_MODE_COMPLETE))"
proof (induction ts arbitrary: p tx)
  case Nil
  then show ?case by simp
next
  case (Cons t ts)
  obtain rc1 p1 where w: "remoteIOWriteMessage p t (case tx of [] \<Rightarrow> Send_EAGAIN | r # _ \<Rightarrow> r) = (rc1, p1)"
    by (cases "remoteIOWriteMessage p t (case tx of [] \<Rightarrow> Send_EAGAIN | r # _ \<Rightarrow> r)") auto
  note m1 = remoteIOWriteMessage_modes [OF w, of u]
  show ?case
  proof (cases "rc1 < 0 \<or> mode (calls p1 t) = REMOTE_MODE_WAIT_TX")
    case True
    with Cons.prems w have "p' = p1" by (auto split: if_splits)
    with m1 show ?thesis by simp
  next
    case False
    with Cons.prems w have "remoteIOHandleOutput_loop p1 ts (tl tx) = (rc, p')" by simp
    from Cons.IH [OF this] m1 show ?thesis by auto
  qed
qed

lemma remoteIOWriteMessage_complete:
  assumes "unat (bufferLength (calls p t) - bufferOffset (calls p t)) \<le> n"
  shows "mode (calls (snd (remoteIOWriteMessage p t (Sent n))) t) =
           (if want_reply (calls p t) then REMOTE_MODE_WAIT_RX else REMOTE_MODE_COMPLETE)"
  using assms
  by (simp add: remoteIOWriteMessage_def remoteIOWriteBuffer_def Let_def min_absorb2)

text \<open>
  Claim C10. A call built by \<open>prepareCall\<close> has \<open>want_reply\<close> set (and starts in
  \<open>WAIT_TX\<close>); a call built for a stream packet has \<open>want_reply\<close> set exactly for the
  statuses \<open>REMOTE_OK\<close> and \<open>REMOTE_ERROR\<close>, so among the three statuses of the protocol
  it is clear exactly for \<open>REMOTE_CONTINUE\<close>. The write sub-machine
  (\<open>remoteIOHandleOutput\<close>) never changes \<open>want_reply\<close> and changes the mode of a call only
  to \<open>WAIT_RX\<close> when \<open>want_reply\<close> is set and only to \<open>COMPLETE\<close> when it is clear; a write
  that takes all the bytes left in the buffer makes that change. So a call of
  \<open>prepareCall\<close> goes to \<open>WAIT_RX\<close> and never directly to \<open>COMPLETE\<close>, a \<open>CONTINUE\<close>
  packet completes at transmission, and \<open>OK\<close> and \<open>ERROR\<close> packets wait for a reply.
\<close>

theorem want_reply_decides_mode_after_transmission:
  "(prepareCall K priv flags proc args_filter retf = (Some a, priv1) \<longrightarrow>
      want_reply (calls priv1 a) \<and> mode (calls priv1 a) = REMOTE_MODE_WAIT_TX)
   \<and> (remoteStreamPacket_call K priv st status data = (Some b, priv2) \<longrightarrow>
      mode (calls priv2 b) = REMOTE_MODE_WAIT_TX \<and>
      want_reply (calls priv2 b) = (status = REMOTE_OK \<or> status = REMOTE_ERROR) \<and>
      (status \<in> {REMOTE_OK, REMOTE_ERROR, REMOTE_CONTINUE} \<longrightarrow>
         (\<not> want_reply (calls priv2 b)) = (status = REMOTE_CONTINUE)))
   \<and> (remoteIOHandleOutput p tx = (rc, p') \<longrightarrow>
      want_reply (calls p' t) = want_reply (calls p t) \<and>
      (mode (calls p' t) = mode (calls p t) \<or>
       mode (calls p' t) = (if want_reply (calls p t) then REMOTE_MODE_WAIT_RX else REMOTE_MODE_COMPLETE)))
   \<and> (unat (bufferLength (calls p t) - bufferOffset (calls p t)) \<le> n \<longrightarrow>
      mode (calls (snd (remoteIOWriteMessage p t (Sent n))) t) =
        (if want_reply (calls p t) then REMOTE_MODE_WAIT_RX else REMOTE_MODE_COMPLETE))"
proof (intro conjI impI)
  assume "prepareCall K priv flags proc args_filter retf = (Some a, priv1)"
  from prepareCall_Some [OF this]
  show "want_reply (calls priv1 a)" and "mode (calls priv1 a) = REMOTE_MODE_WAIT_TX" by blast+
next
  assume s: "remoteStreamPacket_call K priv st status data = (Some b, priv2)"
  from remoteStreamPacket_call_Some [OF s]
  show "mode (calls priv2 b) = REMOTE_MODE_WAIT_TX"
    and w: "want_reply (calls priv2 b) = (status = REMOTE_OK \<or> status = REMOTE_ERROR)" by blast+
  assume "status \<in> {REMOTE_OK, REMOTE_ERROR, REMOTE_CONTINUE}"
  with w show "(\<not> want_reply (calls priv2 b)) = (status = REMOTE_CONTINUE)"
    by (auto simp add: REMOTE_OK_def REMOTE_ERROR_def REMOTE_CONTINUE_def)
next
  assume h: "remoteIOHandleOutput p tx = (rc, p')"
  have "want_reply (calls p' t) = want_reply (calls p t) \<and>
      (mode (calls p' t) = mode (calls p t) \<or>
       mode (calls p' t) = (if want_reply (calls p t) then REMOTE_MODE_WAIT_RX else REMOTE_MODE_COMPLETE))"
  proof (cases "dropWhile (\<lambda>t. mode (calls p t) \<noteq> REMOTE_MODE_WAIT_TX) (waitDispatch p)")
    case Nil
    with h have "p' = p" by (simp add: remoteIOHandleOutput_def)
    then show ?thesis by simp
  next
    case (Cons c cs)
    with h have "remoteIOHandleOutput_loop p (c # cs) tx = (rc, p')"
      by (simp add: remoteIOHandleOutput_def)
    from remoteIOHandleOutput_loop_modes [OF this] show ?thesis .
  qed
  then show "want_reply (calls p' t) = want_reply (calls p t)"
    and "mode (calls p' t) = mode (calls p t) \<or>
       mode (calls p' t) = (if want_reply (calls p t) then REMOTE_MODE_WAIT_RX else REMOTE_MODE_COMPLETE)"
    by blast+
next
  assume "unat (bufferLength (calls p t) - bufferOffset (calls p t)) \<le> n"
  from remoteIOWriteMessage_complete [OF this]
  show "mode (calls (snd (remoteIOWriteMessage p t (Sent n))) t) =
        (if want_reply (calls p t) then REMOTE_MODE_WAIT_RX else REMOTE_MODE_COMPLETE)" .
qed


theorem want_reply_decides_mode_after_transmission_witness:
  "fst (prepareCall libvirt_env calloc_priv 0 66 xdr_void_enc Some) = Some 0 \<and>
   want_reply (calls (snd (prepareCall libvirt_env calloc_priv 0 66 xdr_void_enc Some)) 0) \<and>
   fst (remoteStreamPacket_call libvirt_env calloc_priv 0 REMOTE_CONTINUE [1, 2, 3]) = Some 0 \<and>
   REMOTE_CONTINUE \<in> {REMOTE_OK, REMOTE_ERROR, REMOTE_CONTINUE} \<and>
   \<not> want_reply (calls (snd (remoteStreamPacket_call libvirt_env calloc_priv 0 REMOTE_CONTINUE [1, 2, 3])) 0) \<and>
   unat (bufferLength (calls (snd (prepareCall libvirt_env calloc_priv 0 66 xdr_void_enc Some)) 0) -
         bufferOffset (calls (snd (prepareCall libvirt_env calloc_priv 0 66 xdr_void_enc Some)) 0)) \<le> 28 \<and>
   mode (calls (snd (remoteIOWriteMessage (snd (prepareCall libvirt_env calloc_priv 0 66 xdr_void_enc Some))
                       0 (Sent 28))) 0) = REMOTE_MODE_WAIT_RX \<and>
   mode (calls (snd (remoteIOHandleOutput
                       ((snd (prepareCall libvirt_env calloc_priv 0 66 xdr_void_enc Some))\<lparr> waitDispatch := [0] \<rparr>)
                       [Sent 10])) 0) \<noteq> REMOTE_MODE_COMPLETE"
proof -
  let ?pc = "prepareCall libvirt_env calloc_priv 0 66 xdr_void_enc Some"
  let ?sp = "remoteStreamPacket_call libvirt_env calloc_priv 0 REMOTE_CONTINUE [1, 2, 3]"
  let ?p = "(snd ?pc)\<lparr> waitDispatch := [0] \<rparr>"
  let ?ho = "remoteIOHandleOutput ?p [Sent 10]"
  have e1: "fst ?pc = Some 0"
    by (simp add: prepareCall_def calloc_priv_def libvirt_env_def Let_def xdr_remote_message_header_enc_def
        xdr_u_int_enc_def xdr_void_enc_def)
  have e2: "fst ?sp = Some 0"
    by (simp add: remoteStreamPacket_call_def calloc_priv_def libvirt_env_def Let_def
        xdr_remote_message_header_enc_def xdr_u_int_enc_def REMOTE_MESSAGE_HEADER_XDR_LEN_def
        REMOTE_CONTINUE_def)
  have e3: "unat (bufferLength (calls (snd ?pc) 0) - bufferOffset (calls (snd ?pc) 0)) \<le> 28"
    by (simp add: prepareCall_def calloc_priv_def calloc_call_def libvirt_env_def Let_def
        xdr_remote_message_header_enc_def xdr_u_int_enc_def REMOTE_MESSAGE_HEADER_XDR_LEN_def
        xdr_void_enc_def)
  have e4: "mode (calls ?p 0) = REMOTE_MODE_WAIT_TX \<and> want_reply (calls ?p 0)"
    by (simp add: prepareCall_def calloc_priv_def calloc_call_def libvirt_env_def Let_def
        xdr_remote_message_header_enc_def xdr_u_int_enc_def REMOTE_MESSAGE_HEADER_XDR_LEN_def
        xdr_void_enc_def)
  have h1: "?pc = (Some 0, snd ?pc)" using e1 by (simp add: prod_eq_iff)
  have h2: "?sp = (Some 0, snd ?sp)" using e2 by (simp add: prod_eq_iff)
  have h3: "?ho = (fst ?ho, snd ?ho)" by simp
  have h4: "REMOTE_CONTINUE \<in> {REMOTE_OK, REMOTE_ERROR, REMOTE_CONTINUE}" by simp
  from want_reply_decides_mode_after_transmission
         [where K = libvirt_env and priv = calloc_priv and flags = 0 and proc = 66
            and args_filter = xdr_void_enc and retf = Some and a = 0 and ?priv1.0 = "snd ?pc"
            and st = 0 and status = REMOTE_CONTINUE and data = "[1, 2, 3]" and b = 0
            and ?priv2.0 = "snd ?sp" and p = ?p and tx = "[Sent 10]" and rc = "fst ?ho"
            and p' = "snd ?ho" and t = 0 and n = 28]
       h1 h2 h3 h4 e3 e4
  have "want_reply (calls (snd ?pc) 0)"
    and "\<not> want_reply (calls (snd ?sp) 0)"
    and "mode (calls (snd (remoteIOWriteMessage ?p 0 (Sent 28))) 0) = REMOTE_MODE_WAIT_RX"
    and "mode (calls (snd ?ho) 0) \<noteq> REMOTE_MODE_COMPLETE"
    by auto
  moreover have "remoteIOWriteMessage ?p 0 (Sent 28) =
      (fst (remoteIOWriteMessage (snd ?pc) 0 (Sent 28)),
       (snd (remoteIOWriteMessage (snd ?pc) 0 (Sent 28)))\<lparr> waitDispatch := [0] \<rparr>)"
    by (simp add: remoteIOWriteMessage_def Let_def)
  ultimately show ?thesis using e1 e2 e3 h4 by simp
qed

subsection \<open>Serial numbers\<close>

lemma prepareCall_counter:
  assumes "prepareCall K priv flags proc af rf = (res, priv1)"
  shows "(counter priv1 = counter priv \<or> counter priv1 = counter priv + 1) \<and>
         (brk priv1 = brk priv \<or> brk priv1 = Suc (brk priv)) \<and>
         (\<forall>a. res = Some a \<longrightarrow> a = brk priv \<and> serial (calls priv1 a) = counter priv \<and>
                counter priv1 = counter priv + 1 \<and> brk priv1 = Suc (brk priv))"
  using assms
  by (auto simp add: prepareCall_def Let_def calloc_call_def split: if_splits option.splits)

lemma prepareCalls_serials:
  "prepareCalls K priv rs = (created, priv') \<Longrightarrow>
     (\<forall>s \<in> snd ` set created. \<exists>k < length rs. s = counter priv + of_nat k) \<and>
     (\<forall>a \<in> fst ` set created. brk priv \<le> a) \<and>
     (length rs \<le> 2 ^ 32 \<longrightarrow> distinct (map snd created)) \<and> distinct (map fst created)"
proof (induction rs arbitrary: priv created priv')
  case Nil
  then show ?case by simp
next
  case (Cons r rs)
  let ?p0 = "priv\<lparr> oom := rq_oom r, cond_init_fails := rq_cond_init_fails r \<rparr>"
  obtain res priv1 where pc:
    "prepareCall K ?p0 (rq_flags r) (rq_proc r) (rq_args_filter r) (rq_ret_filter r) = (res, priv1)"
    by (cases "prepareCall K ?p0 (rq_flags r) (rq_proc r) (rq_args_filter r) (rq_ret_filter r)") auto
  note st = prepareCall_counter [OF pc]
  have c0: "counter ?p0 = counter priv" and b0: "brk ?p0 = brk priv" by simp_all
  obtain d :: nat where d: "d \<le> 1" "counter priv1 = counter priv + of_nat d" "res \<noteq> None \<longrightarrow> d = 1"
  proof (cases "counter priv1 = counter priv + 1")
    case True
    then show ?thesis using that [of 1] by simp
  next
    case False
    with st c0 have "counter priv1 = counter priv" "res = None" by auto
    then show ?thesis using that [of 0] by simp
  qed
  have shift: "\<And>created1 priv2. prepareCalls K priv1 rs = (created1, priv2) \<Longrightarrow>
      (\<forall>s \<in> snd ` set created1. \<exists>k < length rs. s = counter priv + of_nat (k + d))"
  proof -
    fix created1 priv2
    assume "prepareCalls K priv1 rs = (created1, priv2)"
    from Cons.IH [OF this] d(2)
    show "\<forall>s \<in> snd ` set created1. \<exists>k < length rs. s = counter priv + of_nat (k + d)"
      by (auto simp add: add.commute add.left_commute)
  qed
  show ?case
  proof (cases res)
    case None
    with Cons.prems pc have rec: "prepareCalls K priv1 rs = (created, priv')" by simp
    note ih = Cons.IH [OF rec]
    have "\<forall>s \<in> snd ` set created. \<exists>k < length (r # rs). s = counter priv + of_nat k"
    proof
      fix s assume "s \<in> snd ` set created"
      with shift [OF rec] obtain k where "k < length rs" "s = counter priv + of_nat (k + d)" by blast
      with d(1) show "\<exists>k < length (r # rs). s = counter priv + of_nat k"
        by (intro exI [of _ "k + d"]) auto
    qed
    moreover have "\<forall>a \<in> fst ` set created. brk priv \<le> a"
      using ih st b0 by fastforce
    ultimately show ?thesis using ih by simp
  next
    case (Some a)
    obtain created1 priv2 where rec: "prepareCalls K priv1 rs = (created1, priv2)"
      by (cases "prepareCalls K priv1 rs") auto
    with Cons.prems pc Some have cr: "created = (a, serial (calls priv1 a)) # created1"
      by simp
    note ih = Cons.IH [OF rec]
    from st Some c0 b0 have a: "a = brk priv" "serial (calls priv1 a) = counter priv"
      "brk priv1 = Suc (brk priv)" by auto
    from d Some have d1: "d = 1" by simp
    have tail: "\<forall>s \<in> snd ` set created1. \<exists>k < length rs. s = counter priv + of_nat (Suc k)"
      using shift [OF rec] d1 by simp
    have p1: "\<forall>s \<in> snd ` set created. \<exists>k < length (r # rs). s = counter priv + of_nat k"
    proof
      fix s assume "s \<in> snd ` set created"
      then consider "s = counter priv" | "s \<in> snd ` set created1" using cr a by auto
      then show "\<exists>k < length (r # rs). s = counter priv + of_nat k"
      proof cases
        case 1
        then show ?thesis by (intro exI [of _ 0]) simp
      next
        case 2
        with tail obtain k where "k < length rs" "s = counter priv + of_nat (Suc k)" by blast
        then show ?thesis by (intro exI [of _ "Suc k"]) simp
      qed
    qed
    have p2: "\<forall>a' \<in> fst ` set created. brk priv \<le> a'"
      using ih a cr by fastforce
    have p3: "length (r # rs) \<le> 2 ^ 32 \<longrightarrow> distinct (map snd created)"
    proof
      assume len: "length (r # rs) \<le> 2 ^ 32"
      then have "distinct (map snd created1)" using ih by simp
      moreover have "counter priv \<notin> snd ` set created1"
      proof
        assume "counter priv \<in> snd ` set created1"
        with tail obtain k where k: "k < length rs" "counter priv = counter priv + of_nat (Suc k)"
          by blast
        from k(1) len have "Suc k < 2 ^ LENGTH(32)" by simp
        then have "(of_nat (Suc k) :: u32) \<noteq> 0" by (intro of_nat_neq_0) simp_all
        with k(2) show False by simp
      qed
      ultimately show "distinct (map snd created)" using cr a by simp
    qed
    have p4: "distinct (map fst created)"
    proof -
      have "a \<notin> fst ` set created1" using ih a by fastforce
      then show ?thesis using ih cr by simp
    qed
    from p1 p2 p3 p4 show ?thesis by blast
  qed
qed


text \<open>
  Claim C8, as amended. The calls that \<open>prepareCall\<close> creates on one connection are
  different objects and, as long as \<open>prepareCall\<close> is invoked at most \<open>2^32\<close> times, have
  different serial numbers (the counter is a 32-bit integer and wraps around). The
  calls built for stream packets and for a blocking stream receive are not numbered by
  the counter: they take the serial number of their stream.
\<close>

theorem prepareCall_serials_distinct:
  assumes "length rs \<le> 2 ^ 32" and "prepareCalls K priv rs = (created, priv')"
  shows "distinct (map fst created) \<and> distinct (map snd created)"
  using prepareCalls_serials [OF assms(2)] assms(1) by blast

theorem prepareCall_serials_distinct_witness:
  "length [\<lparr> rq_flags = 0, rq_proc = 66, rq_args_filter = xdr_void_enc, rq_ret_filter = Some,
              rq_oom = False, rq_cond_init_fails = False \<rparr>,
           \<lparr> rq_flags = REMOTE_CALL_QEMU, rq_proc = 1, rq_args_filter = xdr_void_enc, rq_ret_filter = Some,
              rq_oom = False, rq_cond_init_fails = False \<rparr>] \<le> (2 :: nat) ^ 32 \<and>
   fst (prepareCalls libvirt_env calloc_priv
         [\<lparr> rq_flags = 0, rq_proc = 66, rq_args_filter = xdr_void_enc, rq_ret_filter = Some,
              rq_oom = False, rq_cond_init_fails = False \<rparr>,
           \<lparr> rq_flags = REMOTE_CALL_QEMU, rq_proc = 1, rq_args_filter = xdr_void_enc, rq_ret_filter = Some,
              rq_oom = False, rq_cond_init_fails = False \<rparr>]) = [(0, 0), (1, 1)] \<and>
   distinct (map snd (fst (prepareCalls libvirt_env calloc_priv
         [\<lparr> rq_flags = 0, rq_proc = 66, rq_args_filter = xdr_void_enc, rq_ret_filter = Some,
              rq_oom = False, rq_cond_init_fails = False \<rparr>,
           \<lparr> rq_flags = REMOTE_CALL_QEMU, rq_proc = 1, rq_args_filter = xdr_void_enc, rq_ret_filter = Some,
              rq_oom = False, rq_cond_init_fails = False \<rparr>])))"
proof -
  let ?rs = "[\<lparr> rq_flags = 0, rq_proc = 66, rq_args_filter = xdr_void_enc, rq_ret_filter = Some,
              rq_oom = False, rq_cond_init_fails = False \<rparr>,
           \<lparr> rq_flags = REMOTE_CALL_QEMU, rq_proc = 1, rq_args_filter = xdr_void_enc, rq_ret_filter = Some,
              rq_oom = False, rq_cond_init_fails = False \<rparr>]"
  let ?r = "prepareCalls libvirt_env calloc_priv ?rs"
  have h1: "length ?rs \<le> (2 :: nat) ^ 32" by simp
  have h2: "?r = (fst ?r, snd ?r)" by simp
  have e: "fst ?r = [(0, 0), (1, 1)]"
    by (simp add: prepareCall_def calloc_priv_def calloc_call_def libvirt_env_def Let_def
        xdr_remote_message_header_enc_def xdr_u_int_enc_def xdr_void_enc_def split_def)
  from prepareCall_serials_distinct [OF h1 h2] h1 e show ?thesis by simp
qed

text \<open>
  The claim as stated fails for the calls of a stream: the call that
  \<open>remoteStreamPacket\<close> builds (address 2) and the call of the RPC that opened the stream
  (address 1) are two calls of one connection with the same serial number.
\<close>

theorem stream_packet_call_shares_serial:
  "fst (prepareCall libvirt_env tunnel_priv1 0 214 xdr_void_enc Some) = Some 1 \<and>
   fst (remoteStreamPacket_call libvirt_env tunnel_priv2 0 REMOTE_CONTINUE [1, 2, 3]) = Some 2 \<and>
   \<not> (serial (calls tunnel_priv3 1) \<noteq> serial (calls tunnel_priv3 2))"
  by (simp add: tunnel_priv3_def tunnel_priv2_def tunnel_priv1_def remoteStreamOpen_def
      remoteStreamPacket_call_def prepareCall_def calloc_priv_def calloc_call_def calloc_stream_def
      libvirt_env_def Let_def xdr_remote_message_header_enc_def xdr_u_int_enc_def xdr_void_enc_def
      REMOTE_MESSAGE_HEADER_XDR_LEN_def REMOTE_CONTINUE_def)

text \<open>
  The counter wraps: after the call with serial \<open>2^32 - 1\<close> it is 0 again, the value it
  has on a new connection.
\<close>

lemma prepareCall_counter_wraps:
  "counter (snd (prepareCall libvirt_env (calloc_priv\<lparr> counter := 0xFFFFFFFF \<rparr>) 0 66 xdr_void_enc Some))
     = counter calloc_priv"
  by (simp add: prepareCall_def calloc_priv_def libvirt_env_def Let_def
      xdr_remote_message_header_enc_def xdr_u_int_enc_def xdr_void_enc_def)

subsection \<open>Errors sent by the server\<close>







subsection \<open>A procedure the server does not know\<close>

text \<open>
  Claim C5, as amended. For a call in error with the canonical unknown-procedure error
  (domain \<open>VIR_FROM_REMOTE\<close>, code \<open>VIR_ERR_RPC\<close>, level \<open>VIR_ERR_ERROR\<close>, a message starting
  with \<open>unknown procedure\<close>; \<open>VIR_ERR_RPC\<close> is none of the codes the interoperability
  \<open>switch\<close> renumbers): with the quiet-missing flag \<open>remoteIO\<close> returns the sentinel -2 and
  raises nothing; without the flag it returns -1 and raises the error with the code
  \<open>VIR_ERR_NO_SUPPORT\<close> (not the code \<open>VIR_ERR_RPC\<close> that the server sent) and every
  other field as sent.
\<close>

theorem unknown_procedure_result:
  assumes m: "mode thiscall = REMOTE_MODE_ERROR"
      and d: "domain (err thiscall) = VIR_FROM_REMOTE K"
      and c: "code (err thiscall) = VIR_ERR_RPC K"
      and l: "level (err thiscall) = VIR_ERR_ERROR K"
      and msg: "message (err thiscall) = Some msg"
      and pre: "STRPREFIX msg ''unknown procedure''"
      and K: "VIR_ERR_RPC K \<notin> {VIR_ERR_INVALID_NWFILTER K, VIR_ERR_NO_NWFILTER K,
                VIR_ERR_BUILD_FIREWALL K, VIR_WAR_NO_SECRET K, VIR_ERR_INVALID_SECRET K}"
  shows "remoteIO_cleanup K flags thiscall =
           (if flags AND REMOTE_CALL_QUIET_MISSING_RPC \<noteq> 0 then (-2, None)
            else (-1, Some \<lparr> v_domain = domain (err thiscall), v_code = VIR_ERR_NO_SUPPORT K,
                    v_level = level (err thiscall), v_str1 = str1 (err thiscall),
                    v_str2 = str2 (err thiscall), v_str3 = str3 (err thiscall),
                    v_int1 = int1 (err thiscall), v_int2 = int2 (err thiscall), v_message = msg \<rparr>))"
  using assms
  by (simp add: remoteIO_cleanup_def Let_def virRaiseErrorFull_def)

theorem unknown_procedure_result_witness:
  "mode unknown_procedure_call = REMOTE_MODE_ERROR \<and>
   domain (err unknown_procedure_call) = VIR_FROM_REMOTE libvirt_env \<and>
   code (err unknown_procedure_call) = VIR_ERR_RPC libvirt_env \<and>
   level (err unknown_procedure_call) = VIR_ERR_ERROR libvirt_env \<and>
   message (err unknown_procedure_call) = Some ''unknown procedure: 66'' \<and>
   STRPREFIX ''unknown procedure: 66'' ''unknown procedure'' \<and>
   VIR_ERR_RPC libvirt_env \<notin> {VIR_ERR_INVALID_NWFILTER libvirt_env, VIR_ERR_NO_NWFILTER libvirt_env,
      VIR_ERR_BUILD_FIREWALL libvirt_env, VIR_WAR_NO_SECRET libvirt_env, VIR_ERR_INVALID_SECRET libvirt_env} \<and>
   remoteIO_cleanup libvirt_env REMOTE_CALL_QUIET_MISSING_RPC unknown_procedure_call = (-2, None)"
proof -
  have h1: "mode unknown_procedure_call = REMOTE_MODE_ERROR"
    and h2: "domain (err unknown_procedure_call) = VIR_FROM_REMOTE libvirt_env"
    and h3: "code (err unknown_procedure_call) = VIR_ERR_RPC libvirt_env"
    and h4: "level (err unknown_procedure_call) = VIR_ERR_ERROR libvirt_env"
    and h5: "message (err unknown_procedure_call) = Some ''unknown procedure: 66''"
    by (simp_all add: unknown_procedure_call_def libvirt_env_def)
  have h6: "STRPREFIX ''unknown procedure: 66'' ''unknown procedure''"
    by (simp add: STRPREFIX_def)
  have h7: "VIR_ERR_RPC libvirt_env \<notin> {VIR_ERR_INVALID_NWFILTER libvirt_env, VIR_ERR_NO_NWFILTER libvirt_env,
      VIR_ERR_BUILD_FIREWALL libvirt_env, VIR_WAR_NO_SECRET libvirt_env, VIR_ERR_INVALID_SECRET libvirt_env}"
    by (simp add: libvirt_env_def)
  have q: "REMOTE_CALL_QUIET_MISSING_RPC AND REMOTE_CALL_QUIET_MISSING_RPC \<noteq> 0"
    by (simp add: REMOTE_CALL_QUIET_MISSING_RPC_def)
  from unknown_procedure_result [OF h1 h2 h3 h4 h5 h6 h7, of REMOTE_CALL_QUIET_MISSING_RPC] q
  have "remoteIO_cleanup libvirt_env REMOTE_CALL_QUIET_MISSING_RPC unknown_procedure_call = (-2, None)"
    by simp
  with h1 h2 h3 h4 h5 h6 h7 show ?thesis by blast
qed

text \<open>
  The claim as stated fails in its second half: without the quiet-missing flag the error
  raised has the code 3 (\<open>VIR_ERR_NO_SUPPORT\<close>), not the code 39 (\<open>VIR_ERR_RPC\<close>) of the
  unknown-procedure error.
\<close>

theorem unknown_procedure_raised_as_no_support:
  "VIR_ERR_RPC libvirt_env = 39 \<and> VIR_ERR_NO_SUPPORT libvirt_env = 3 \<and>
   code (err unknown_procedure_call) = 39 \<and>
   remoteIO_cleanup libvirt_env 0 unknown_procedure_call =
     (-1, Some \<lparr> v_domain = 13, v_code = 3, v_level = 2, v_str1 = None, v_str2 = None, v_str3 = None,
                  v_int1 = 0, v_int2 = 0, v_message = ''unknown procedure: 66'' \<rparr>)"
  by (simp add: unknown_procedure_call_def remoteIO_cleanup_def Let_def libvirt_env_def
      virRaiseErrorFull_def REMOTE_CALL_QUIET_MISSING_RPC_def STRPREFIX_def)

subsection \<open>Routing of stream frames\<close>

lemma two_streams_priv_eval:
  "two_streams_priv = calloc_priv\<lparr> brk := 2, streams := [1, 0],
     strm := ((strm calloc_priv)(0 := calloc_stream\<lparr> st_proc_nr := 214, st_serial := 5 \<rparr>))
               (1 := calloc_stream\<lparr> st_proc_nr := 214, st_serial := 9 \<rparr>) \<rparr>"
  by (simp add: two_streams_priv_def remoteStreamOpen_def calloc_priv_def Let_def)

lemma stream_frame_eval:
  "stream_frame = [0, 0, 0, 31, 0x20, 0x00, 0x80, 0x86, 0, 0, 0, 1, 0, 0, 0, 214, 0, 0, 0, 3,
                   0, 0, 0, 5, 0, 0, 0, 2, 97, 98, 99]"
  by (simp add: stream_frame_def xdr_remote_message_header_enc_def xdr_u_int_enc_def
      REMOTE_STREAM_def REMOTE_CONTINUE_def)

text \<open>
  Claim C1 on the code. Two streams of procedure 214 are registered, the newer one with
  serial 9 and the older one with serial 5. A frame of type \<open>REMOTE_STREAM\<close> for serial 5
  and procedure 214 with the payload \<open>abc\<close> is read. The lookup of
  \<open>processCallDispatchStream\<close> stops at the first stream of the registry that matches the
  header on the serial or on the procedure: the payload goes to the stream with serial
  9, which matches the frame on the procedure only, and the stream with serial 5, which
  matches on both fields, receives nothing.
\<close>

theorem stream_frame_delivered_on_one_field:
  "st_serial (strm two_streams_priv 0) = 5 \<and> st_proc_nr (strm two_streams_priv 0) = 214 \<and>
   st_serial (strm two_streams_priv 1) = 9 \<and> st_proc_nr (strm two_streams_priv 1) = 214 \<and>
   streams two_streams_priv = [1, 0] \<and>
   fst (remoteIOHandleInput libvirt_env two_streams_priv 0
          [Received (take 4 stream_frame), Received (drop 4 stream_frame)]) = 0 \<and>
   incoming (strm (snd (remoteIOHandleInput libvirt_env two_streams_priv 0
          [Received (take 4 stream_frame), Received (drop 4 stream_frame)])) 1) = [97, 98, 99] \<and>
   incoming (strm (snd (remoteIOHandleInput libvirt_env two_streams_priv 0
          [Received (take 4 stream_frame), Received (drop 4 stream_frame)])) 0) = []"
  unfolding two_streams_priv_eval stream_frame_eval
  by (simp add: remoteIOReadMessage_def remoteIOReadBuffer_def remoteIODecodeMessageLength_def
      processCallDispatch_def processCallDispatchStream_def xdr_remote_message_header_dec_def
      remoteStreamEventTimerUpdate_def
      calloc_priv_def calloc_stream_def libvirt_env_def Let_def
      REMOTE_MESSAGE_HEADER_XDR_LEN_def REMOTE_CALL_QEMU_def REMOTE_REPLY_def REMOTE_MESSAGE_def
      REMOTE_STREAM_def REMOTE_CONTINUE_def REMOTE_OK_def REMOTE_ERROR_def)

subsection \<open>Dispatch of replies\<close>









subsection \<open>Receiving from a stream\<close>

lemma sint_small:
  fixes w :: u32
  assumes "unat w < 2147483648"
  shows "sint w = int (unat w)"
proof -
  have p: "(2 :: int) ^ 31 = 2147483648" by simp
  have u: "uint w = int (unat w)" by simp
  have "int (unat w) < 2147483648" using assms by linarith
  then have lt: "uint w < 2 ^ 31" unfolding p u .
  have "- (2 ^ 31) \<le> (0 :: int)" by simp
  also have "0 \<le> uint w" by simp
  finally have ge: "- (2 ^ 31) \<le> uint w" .
  from ge lt have s: "signed_take_bit 31 (uint w) = uint w"
    by (rule signed_take_bit_int_eq_self)
  have l: "LENGTH(32) - Suc 0 = 31" by simp
  have "sint w = signed_take_bit 31 (uint w)"
    using sint_uint [of w] unfolding l .
  then have "sint w = uint w" by (simp only: s)
  then show ?thesis by (simp only: u)
qed

lemma unat_scast_small:
  fixes w :: u32
  assumes "unat w < 2147483648"
  shows "unat (scast w :: 64 word) = unat w"
proof -
  have "(scast w :: 64 word) = word_of_int (int (unat w))"
    by (simp only: scast_eq sint_small [OF assms])
  also have "\<dots> = of_nat (unat w)" by simp
  finally have "unat (scast w :: 64 word) = unat (of_nat (unat w) :: 64 word)" by simp
  also have "\<dots> = unat w mod 2 ^ LENGTH(64)" by (rule unat_of_nat)
  also have "\<dots> = unat w"
  proof -
    have "unat w < 18446744073709551616" using assms by linarith
    then show ?thesis by simp
  qed
  finally show ?thesis .
qed

lemma unat_ucast_small:
  fixes n :: "64 word"
  assumes "unat n < 2147483648"
  shows "unat (ucast n :: u32) = unat n"
proof -
  have "unat (ucast n :: u32) = take_bit 32 (unat n)"
    by (simp add: unsigned_ucast_eq)
  also have "\<dots> = unat n mod 2 ^ 32" by (simp add: take_bit_eq_mod)
  also have "\<dots> = unat n"
  proof -
    have "unat n < 4294967296" using assms by linarith
    then show ?thesis by simp
  qed
  finally show ?thesis .
qed

lemma want_value:
  fixes off :: u32 and nbytes :: "64 word"
  assumes small: "unat off < 2147483648"
  defines "want \<equiv> (if (scast off :: 64 word) > nbytes then (ucast nbytes :: u32) else off)"
  shows "unat want = min (unat nbytes) (unat off)"
    and "sint want = int (min (unat nbytes) (unat off))"
    and "unat (scast want :: 64 word) = min (unat nbytes) (unat off)"
    and "(want < off) = (unat nbytes < unat off)"
proof -
  have cmp: "((scast off :: 64 word) > nbytes) = (unat nbytes < unat off)"
    by (simp add: word_less_nat_alt unat_scast_small [OF small])
  show u: "unat want = min (unat nbytes) (unat off)"
  proof (cases "unat nbytes < unat off")
    case True
    then have "unat nbytes < 2147483648" using small by linarith
    from unat_ucast_small [OF this] True cmp show ?thesis by (simp add: want_def)
  next
    case False
    with cmp show ?thesis by (simp add: want_def)
  qed
  have ws: "unat want < 2147483648" using u small by linarith
  show "sint want = int (min (unat nbytes) (unat off))"
    using sint_small [OF ws] u by simp
  show "unat (scast want :: 64 word) = min (unat nbytes) (unat off)"
    using unat_scast_small [OF ws] u by simp
  have "(want < off) = (unat want < unat off)" by (simp add: word_less_nat_alt)
  also have "\<dots> = (unat nbytes < unat off)" unfolding u by auto
  finally show "(want < off) = (unat nbytes < unat off)" .
qed


lemma remoteStreamEventTimerUpdate_fields:
  "incoming (remoteStreamEventTimerUpdate K s) = incoming s \<and>
   incomingOffset (remoteStreamEventTimerUpdate K s) = incomingOffset s \<and>
   has_error (remoteStreamEventTimerUpdate K s) = has_error s"
  by (simp add: remoteStreamEventTimerUpdate_def)

lemma remoteStreamRecv_copy_result:
  assumes wf: "length (incoming (strm priv st)) = unat (incomingOffset (strm priv st))"
      and small: "unat (incomingOffset (strm priv st)) < 2147483648"
  shows "\<exists>priv'. remoteStreamRecv_copy K priv st nbytes =
           (int (min (unat nbytes) (length (incoming (strm priv st)))),
            take (min (unat nbytes) (length (incoming (strm priv st)))) (incoming (strm priv st)), priv') \<and>
         incoming (strm priv' st) =
           drop (min (unat nbytes) (length (incoming (strm priv st)))) (incoming (strm priv st)) \<and>
         unat (incomingOffset (strm priv' st)) =
           length (incoming (strm priv st)) - min (unat nbytes) (length (incoming (strm priv st)))"
proof (cases "incomingOffset (strm priv st) = 0")
  case True
  with wf have "incoming (strm priv st) = []" by simp
  with True show ?thesis
    by (simp add: remoteStreamRecv_copy_def Let_def remoteStreamEventTimerUpdate_fields)
next
  case False
  let ?s = "strm priv st"
  let ?off = "incomingOffset ?s"
  let ?n = "min (unat nbytes) (length (incoming ?s))"
  define want where "want = (if (scast ?off :: 64 word) > nbytes then (ucast nbytes :: u32) else ?off)"
  note wv = want_value [OF small, of nbytes, folded want_def]
  have lo: "unat ?off = length (incoming ?s)" using wf by simp
  have uw: "unat want = ?n" using wv(1) unfolding lo .
  have sw: "unat (scast want :: 64 word) = ?n" using wv(3) unfolding lo .
  have si: "sint want = int ?n" using wv(2) unfolding lo .
  have lt: "(want < ?off) = (unat nbytes < length (incoming ?s))" using wv(4) unfolding lo .
  define s1 where "s1 =
     (if want < ?off
      then ?s\<lparr> incoming := take (unat (?off - want)) (drop (unat (scast want :: 64 word)) (incoming ?s)),
              incomingOffset := ?off - want \<rparr>
      else ?s\<lparr> incoming := [], incomingOffset := 0, incomingLength := 0 \<rparr>)"
  have unf: "remoteStreamRecv_copy K priv st nbytes =
      (sint want, take (unat (scast want :: 64 word)) (incoming ?s),
       priv\<lparr> strm := (strm priv)(st := remoteStreamEventTimerUpdate K s1) \<rparr>)"
    using False unfolding remoteStreamRecv_copy_def Let_def want_def s1_def by simp
  have le: "unat want \<le> unat ?off"
    unfolding uw lo by simp
  then have "want \<le> ?off" by (simp only: word_le_nat_alt)
  then have "unat (?off - want) = unat ?off - unat want" by (rule unat_sub)
  then have sub: "unat (?off - want) = length (incoming ?s) - ?n" unfolding uw lo .
  have inc1: "incoming s1 = drop ?n (incoming ?s)"
  proof (cases "unat nbytes < length (incoming ?s)")
    case True
    then have "want < ?off" using lt by simp
    then have "incoming s1 = take (unat (?off - want)) (drop (unat (scast want :: 64 word)) (incoming ?s))"
      by (simp add: s1_def)
    also have "\<dots> = take (length (incoming ?s) - ?n) (drop ?n (incoming ?s))"
      unfolding sub sw ..
    also have "\<dots> = drop ?n (incoming ?s)" by simp
    finally show ?thesis .
  next
    case False
    then have nw: "\<not> want < ?off" using lt by simp
    from False have "?n = length (incoming ?s)" by simp
    with nw show ?thesis by (simp add: s1_def)
  qed
  have off1: "unat (incomingOffset s1) = length (incoming ?s) - ?n"
  proof (cases "unat nbytes < length (incoming ?s)")
    case True
    then have "want < ?off" using lt by simp
    then have "unat (incomingOffset s1) = unat (?off - want)" by (simp add: s1_def)
    then show ?thesis unfolding sub .
  next
    case False
    then have nw: "\<not> want < ?off" using lt by simp
    from False have "?n = length (incoming ?s)" by simp
    with nw show ?thesis by (simp add: s1_def)
  qed
  have r1: "incoming (strm (priv\<lparr> strm := (strm priv)(st := remoteStreamEventTimerUpdate K s1) \<rparr>) st)
              = drop ?n (incoming ?s)"
    by (simp add: remoteStreamEventTimerUpdate_fields inc1)
  have r2: "unat (incomingOffset (strm (priv\<lparr> strm := (strm priv)(st := remoteStreamEventTimerUpdate K s1) \<rparr>) st))
              = length (incoming ?s) - ?n"
    by (simp add: remoteStreamEventTimerUpdate_fields off1)
  show ?thesis
    unfolding unf si sw using r1 r2 by blast
qed


lemma remoteStreamRecv_cleanup_nonneg:
  "0 \<le> rv \<Longrightarrow> remoteStreamRecv_cleanup priv st rv data = Some (rv, data, priv)"
  by (simp add: remoteStreamRecv_cleanup_def)

text \<open>
  Claim C9, as amended. For a stream with no stored error: (1) when the inbound buffer
  is empty and the stream is non-blocking, \<open>remoteStreamRecv\<close> returns the would-block
  sentinel -2 and changes nothing; (2) when the inbound buffer holds data (fewer than
  \<open>2^31\<close> bytes, \<open>incoming\<close> holding exactly the \<open>incomingOffset\<close> buffered bytes), it
  copies the first \<open>min (nbytes, buffered)\<close> bytes to the caller, returns that count and
  keeps the remaining bytes at the front of the inbound buffer; (3) when the buffer is
  empty and the stream is blocking, the pseudo-call in \<open>WAIT_RX\<close> is given to \<open>remoteIO\<close>,
  and when that returns without failure the same copy is made from the inbound buffer as
  the wait left it. (4) For a stream with a stored error, whatever its inbound buffer,
  its flags and the length asked for, nothing is copied: \<open>remoteStreamRecv\<close> goes
  straight to \<open>remoteStreamRelease\<close> and returns -1 with the connection as the release
  leaves it; where the release does not return (the stream is neither the first nor the
  second of a registry of two or more), neither does \<open>remoteStreamRecv\<close>.
\<close>

theorem stream_receive:
  "(\<not> has_error (strm p1 st) \<and> incomingOffset (strm p1 st) = 0 \<and>
    f1 AND VIR_STREAM_NONBLOCK K \<noteq> 0 \<longrightarrow>
      remoteStreamRecv K p1 st f1 nbytes env = Some (-2, [], p1))
   \<and> (\<not> has_error (strm p2 st) \<and> incomingOffset (strm p2 st) \<noteq> 0 \<and>
       length (incoming (strm p2 st)) = unat (incomingOffset (strm p2 st)) \<and>
       unat (incomingOffset (strm p2 st)) < 2147483648 \<longrightarrow>
      (\<exists>p'. remoteStreamRecv K p2 st f2 nbytes env =
              Some (int (min (unat nbytes) (length (incoming (strm p2 st)))),
                    take (min (unat nbytes) (length (incoming (strm p2 st)))) (incoming (strm p2 st)), p') \<and>
            incoming (strm p' st) =
              drop (min (unat nbytes) (length (incoming (strm p2 st)))) (incoming (strm p2 st)) \<and>
            unat (incomingOffset (strm p' st)) =
              length (incoming (strm p2 st)) - min (unat nbytes) (length (incoming (strm p2 st)))))
   \<and> (\<not> has_error (strm p3 st) \<and> incomingOffset (strm p3 st) = 0 \<and>
       f3 AND VIR_STREAM_NONBLOCK K = 0 \<and> \<not> oom p3 \<and> \<not> cond_init_fails p3 \<and>
       remoteIO K (p3\<lparr> brk := Suc (brk p3),
                       calls := (calls p3)(brk p3 := calloc_call\<lparr> mode := REMOTE_MODE_WAIT_RX,
                          serial := st_serial (strm p3 st), proc_nr := st_proc_nr (strm p3 st),
                          want_reply := True \<rparr>) \<rparr>) 0 (brk p3) env = Some (rc, raised, q) \<and>
       0 \<le> rc \<and>
       length (incoming (strm q st)) = unat (incomingOffset (strm q st)) \<and>
       unat (incomingOffset (strm q st)) < 2147483648 \<longrightarrow>
      (\<exists>p'. remoteStreamRecv K p3 st f3 nbytes env =
              Some (int (min (unat nbytes) (length (incoming (strm q st)))),
                    take (min (unat nbytes) (length (incoming (strm q st)))) (incoming (strm q st)), p') \<and>
            incoming (strm p' st) =
              drop (min (unat nbytes) (length (incoming (strm q st)))) (incoming (strm q st)) \<and>
            unat (incomingOffset (strm p' st)) =
              length (incoming (strm q st)) - min (unat nbytes) (length (incoming (strm q st)))))
   \<and> (has_error (strm p4 st) \<longrightarrow>
      remoteStreamRecv K p4 st f4 nbytes env =
        (case remoteStreamRelease p4 st of None \<Rightarrow> None | Some r \<Rightarrow> Some (-1, [], r)))"
proof (intro conjI impI)
  assume "\<not> has_error (strm p1 st) \<and> incomingOffset (strm p1 st) = 0 \<and>
    f1 AND VIR_STREAM_NONBLOCK K \<noteq> 0"
  then show "remoteStreamRecv K p1 st f1 nbytes env = Some (-2, [], p1)"
    by (simp add: remoteStreamRecv_def remoteStreamHasError_def remoteStreamRecv_cleanup_def)
next
  assume a: "\<not> has_error (strm p2 st) \<and> incomingOffset (strm p2 st) \<noteq> 0 \<and>
       length (incoming (strm p2 st)) = unat (incomingOffset (strm p2 st)) \<and>
       unat (incomingOffset (strm p2 st)) < 2147483648"
  then have wf: "length (incoming (strm p2 st)) = unat (incomingOffset (strm p2 st))"
    and small: "unat (incomingOffset (strm p2 st)) < 2147483648" by blast+
  let ?n = "min (unat nbytes) (length (incoming (strm p2 st)))"
  from remoteStreamRecv_copy_result [OF wf small, of K nbytes]
  obtain p' where c: "remoteStreamRecv_copy K p2 st nbytes = (int ?n, take ?n (incoming (strm p2 st)), p')"
    and r: "incoming (strm p' st) = drop ?n (incoming (strm p2 st))"
           "unat (incomingOffset (strm p' st)) = length (incoming (strm p2 st)) - ?n"
    by blast
  have "remoteStreamRecv K p2 st f2 nbytes env =
          remoteStreamRecv_cleanup p' st (int ?n) (take ?n (incoming (strm p2 st)))"
    using a c by (simp add: remoteStreamRecv_def remoteStreamHasError_def)
  also have "\<dots> = Some (int ?n, take ?n (incoming (strm p2 st)), p')"
    by (rule remoteStreamRecv_cleanup_nonneg) simp
  finally show "\<exists>p'. remoteStreamRecv K p2 st f2 nbytes env =
              Some (int ?n, take ?n (incoming (strm p2 st)), p') \<and>
            incoming (strm p' st) = drop ?n (incoming (strm p2 st)) \<and>
            unat (incomingOffset (strm p' st)) = length (incoming (strm p2 st)) - ?n"
    using r by blast
next
  let ?p = "p3\<lparr> brk := Suc (brk p3),
                       calls := (calls p3)(brk p3 := calloc_call\<lparr> mode := REMOTE_MODE_WAIT_RX,
                          serial := st_serial (strm p3 st), proc_nr := st_proc_nr (strm p3 st),
                          want_reply := True \<rparr>) \<rparr>"
  assume a: "\<not> has_error (strm p3 st) \<and> incomingOffset (strm p3 st) = 0 \<and>
       f3 AND VIR_STREAM_NONBLOCK K = 0 \<and> \<not> oom p3 \<and> \<not> cond_init_fails p3 \<and>
       remoteIO K ?p 0 (brk p3) env = Some (rc, raised, q) \<and>
       0 \<le> rc \<and>
       length (incoming (strm q st)) = unat (incomingOffset (strm q st)) \<and>
       unat (incomingOffset (strm q st)) < 2147483648"
  then have wf: "length (incoming (strm q st)) = unat (incomingOffset (strm q st))"
    and small: "unat (incomingOffset (strm q st)) < 2147483648"
    and io: "remoteIO K ?p 0 (brk p3) env = Some (rc, raised, q)" and rc: "\<not> rc < 0" by auto
  let ?n = "min (unat nbytes) (length (incoming (strm q st)))"
  from remoteStreamRecv_copy_result [OF wf small, of K nbytes]
  obtain p' where c: "remoteStreamRecv_copy K q st nbytes = (int ?n, take ?n (incoming (strm q st)), p')"
    and r: "incoming (strm p' st) = drop ?n (incoming (strm q st))"
           "unat (incomingOffset (strm p' st)) = length (incoming (strm q st)) - ?n"
    by blast
  have "remoteStreamRecv K p3 st f3 nbytes env =
          remoteStreamRecv_cleanup p' st (int ?n) (take ?n (incoming (strm q st)))"
    using a c io rc by (simp add: remoteStreamRecv_def remoteStreamHasError_def Let_def)
  also have "\<dots> = Some (int ?n, take ?n (incoming (strm q st)), p')"
    by (rule remoteStreamRecv_cleanup_nonneg) simp
  finally show "\<exists>p'. remoteStreamRecv K p3 st f3 nbytes env =
              Some (int ?n, take ?n (incoming (strm q st)), p') \<and>
            incoming (strm p' st) = drop ?n (incoming (strm q st)) \<and>
            unat (incomingOffset (strm p' st)) = length (incoming (strm q st)) - ?n"
    using r by blast
next
  assume "has_error (strm p4 st)"
  then show "remoteStreamRecv K p4 st f4 nbytes env =
        (case remoteStreamRelease p4 st of None \<Rightarrow> None | Some r \<Rightarrow> Some (-1, [], r))"
    by (simp add: remoteStreamRecv_def remoteStreamHasError_def remoteStreamRecv_cleanup_def)
qed


lemma one_stream_priv_eval:
  "one_stream_priv = calloc_priv\<lparr> brk := 1, streams := [0],
     strm := (strm calloc_priv)(0 := calloc_stream\<lparr> st_proc_nr := 214, st_serial := 5 \<rparr>) \<rparr>"
  by (simp add: one_stream_priv_def remoteStreamOpen_def calloc_priv_def Let_def)

lemma blocking_wait_eval:
  "remoteIO libvirt_env
     (one_stream_priv\<lparr> brk := Suc (brk one_stream_priv),
        calls := (calls one_stream_priv)(brk one_stream_priv := calloc_call\<lparr> mode := REMOTE_MODE_WAIT_RX,
           serial := st_serial (strm one_stream_priv 0), proc_nr := st_proc_nr (strm one_stream_priv 0),
           want_reply := True \<rparr>) \<rparr>) 0 (brk one_stream_priv) stream_data_io
   = Some (0, None, stream_after_wait)"
  unfolding stream_after_wait_def one_stream_priv_eval stream_data_io_def stream_data_poll_def stream_frame_eval
  by (simp add: remoteIO_def remoteIOReadMessage_def remoteIOReadBuffer_def remoteIODecodeMessageLength_def
      processCallDispatch_def processCallDispatchStream_def xdr_remote_message_header_dec_def
      remoteStreamEventTimerUpdate_def wake_sleepers_def pass_the_buck_def next_of_def is_terminal_def
      remoteIO_cleanup_def
      calloc_priv_def calloc_stream_def calloc_call_def libvirt_env_def Let_def
      REMOTE_MESSAGE_HEADER_XDR_LEN_def REMOTE_CALL_QEMU_def REMOTE_REPLY_def REMOTE_MESSAGE_def
      REMOTE_STREAM_def REMOTE_CONTINUE_def REMOTE_OK_def REMOTE_ERROR_def)

theorem stream_receive_witness:
  "remoteStreamRecv libvirt_env one_stream_priv 0 (VIR_STREAM_NONBLOCK libvirt_env) 2 stream_data_io
     = Some (-2, [], one_stream_priv) \<and>
   (\<exists>p'. remoteStreamRecv libvirt_env buffered_stream_priv 0 0 2 stream_data_io
            = Some (2, [97, 98], p') \<and>
          incoming (strm p' 0) = [99, 100, 101] \<and> unat (incomingOffset (strm p' 0)) = 3) \<and>
   (\<exists>p'. remoteStreamRecv libvirt_env one_stream_priv 0 0 2 stream_data_io
            = Some (2, [97, 98], p') \<and>
          incoming (strm p' 0) = [99] \<and> unat (incomingOffset (strm p' 0)) = 1) \<and>
   has_error (strm errored_buffered_stream_priv 0) \<and>
   incoming (strm errored_buffered_stream_priv 0) = [97, 98, 99, 100, 101] \<and>
   remoteStreamRecv libvirt_env errored_buffered_stream_priv 0 0 2 stream_data_io
     = Some (-1, [], errored_buffered_stream_priv\<lparr> streams := [] \<rparr>)"
proof -
  have h1: "\<not> has_error (strm one_stream_priv 0) \<and> incomingOffset (strm one_stream_priv 0) = 0 \<and>
            VIR_STREAM_NONBLOCK libvirt_env AND VIR_STREAM_NONBLOCK libvirt_env \<noteq> 0"
    by (simp add: one_stream_priv_eval calloc_stream_def libvirt_env_def)
  have h2: "\<not> has_error (strm buffered_stream_priv 0) \<and> incomingOffset (strm buffered_stream_priv 0) \<noteq> 0 \<and>
       length (incoming (strm buffered_stream_priv 0)) = unat (incomingOffset (strm buffered_stream_priv 0)) \<and>
       unat (incomingOffset (strm buffered_stream_priv 0)) < 2147483648"
    by (simp add: buffered_stream_priv_def one_stream_priv_eval calloc_stream_def)
  have h3: "\<not> has_error (strm one_stream_priv 0) \<and> incomingOffset (strm one_stream_priv 0) = 0 \<and>
       (0 :: u32) AND VIR_STREAM_NONBLOCK libvirt_env = 0 \<and> \<not> oom one_stream_priv \<and>
       \<not> cond_init_fails one_stream_priv \<and>
       remoteIO libvirt_env
         (one_stream_priv\<lparr> brk := Suc (brk one_stream_priv),
            calls := (calls one_stream_priv)(brk one_stream_priv := calloc_call\<lparr> mode := REMOTE_MODE_WAIT_RX,
               serial := st_serial (strm one_stream_priv 0), proc_nr := st_proc_nr (strm one_stream_priv 0),
               want_reply := True \<rparr>) \<rparr>) 0 (brk one_stream_priv) stream_data_io
         = Some (0, None, stream_after_wait) \<and>
       (0 :: int) \<le> 0 \<and>
       length (incoming (strm stream_after_wait 0)) = unat (incomingOffset (strm stream_after_wait 0)) \<and>
       unat (incomingOffset (strm stream_after_wait 0)) < 2147483648"
    using blocking_wait_eval
    by (simp add: stream_after_wait_def one_stream_priv_eval calloc_stream_def calloc_priv_def)
  have v2: "incoming (strm buffered_stream_priv 0) = [97, 98, 99, 100, 101]"
    by (simp add: buffered_stream_priv_def)
  have v3: "incoming (strm stream_after_wait 0) = [97, 98, 99]"
    by (simp add: stream_after_wait_def)
  have u: "unat (2 :: 64 word) = 2" by simp
  note sr = stream_receive [where K = libvirt_env and ?p1.0 = one_stream_priv and st = 0
      and ?f1.0 = "VIR_STREAM_NONBLOCK libvirt_env" and nbytes = 2 and env = stream_data_io
      and ?p2.0 = buffered_stream_priv and ?f2.0 = 0
      and ?p3.0 = one_stream_priv and ?f3.0 = 0 and rc = 0 and raised = None and q = stream_after_wait
      and ?p4.0 = errored_buffered_stream_priv and ?f4.0 = 0]
  from sr h1 have c1: "remoteStreamRecv libvirt_env one_stream_priv 0 (VIR_STREAM_NONBLOCK libvirt_env) 2 stream_data_io
     = Some (-2, [], one_stream_priv)" by blast
  from sr h2 have "\<exists>p'. remoteStreamRecv libvirt_env buffered_stream_priv 0 0 2 stream_data_io =
              Some (int (min (unat (2 :: 64 word)) (length (incoming (strm buffered_stream_priv 0)))),
                    take (min (unat (2 :: 64 word)) (length (incoming (strm buffered_stream_priv 0))))
                      (incoming (strm buffered_stream_priv 0)), p') \<and>
            incoming (strm p' 0) =
              drop (min (unat (2 :: 64 word)) (length (incoming (strm buffered_stream_priv 0))))
                (incoming (strm buffered_stream_priv 0)) \<and>
            unat (incomingOffset (strm p' 0)) =
              length (incoming (strm buffered_stream_priv 0)) -
              min (unat (2 :: 64 word)) (length (incoming (strm buffered_stream_priv 0)))"
    by blast
  then have c2: "\<exists>p'. remoteStreamRecv libvirt_env buffered_stream_priv 0 0 2 stream_data_io
            = Some (2, [97, 98], p') \<and>
          incoming (strm p' 0) = [99, 100, 101] \<and> unat (incomingOffset (strm p' 0)) = 3"
    unfolding v2 u by (simp add: numeral_3_eq_3)
  from sr h3 have "\<exists>p'. remoteStreamRecv libvirt_env one_stream_priv 0 0 2 stream_data_io =
              Some (int (min (unat (2 :: 64 word)) (length (incoming (strm stream_after_wait 0)))),
                    take (min (unat (2 :: 64 word)) (length (incoming (strm stream_after_wait 0))))
                      (incoming (strm stream_after_wait 0)), p') \<and>
            incoming (strm p' 0) =
              drop (min (unat (2 :: 64 word)) (length (incoming (strm stream_after_wait 0))))
                (incoming (strm stream_after_wait 0)) \<and>
            unat (incomingOffset (strm p' 0)) =
              length (incoming (strm stream_after_wait 0)) -
              min (unat (2 :: 64 word)) (length (incoming (strm stream_after_wait 0)))"
    by blast
  then have c3: "\<exists>p'. remoteStreamRecv libvirt_env one_stream_priv 0 0 2 stream_data_io
            = Some (2, [97, 98], p') \<and>
          incoming (strm p' 0) = [99] \<and> unat (incomingOffset (strm p' 0)) = 1"
    unfolding v3 u by simp
  have h4: "has_error (strm errored_buffered_stream_priv 0)"
    by (simp add: errored_buffered_stream_priv_def)
  have v4: "incoming (strm errored_buffered_stream_priv 0) = [97, 98, 99, 100, 101]"
    by (simp add: errored_buffered_stream_priv_def buffered_stream_priv_def)
  have r4: "remoteStreamRelease errored_buffered_stream_priv 0
              = Some (errored_buffered_stream_priv\<lparr> streams := [] \<rparr>)"
    by (simp add: remoteStreamRelease_def errored_buffered_stream_priv_def buffered_stream_priv_def
        one_stream_priv_eval)
  from sr h4 have "remoteStreamRecv libvirt_env errored_buffered_stream_priv 0 0 2 stream_data_io =
        (case remoteStreamRelease errored_buffered_stream_priv 0 of
           None \<Rightarrow> None | Some r \<Rightarrow> Some (-1, [], r))"
    by blast
  then have c4: "remoteStreamRecv libvirt_env errored_buffered_stream_priv 0 0 2 stream_data_io
     = Some (-1, [], errored_buffered_stream_priv\<lparr> streams := [] \<rparr>)"
    unfolding r4 by simp
  from c1 c2 c3 h4 v4 c4 show ?thesis by blast
qed

text \<open>
  The claim as stated fails for a stream with a stored error: non-blocking and with an
  empty inbound buffer, \<open>remoteStreamRecv\<close> does not return the would-block sentinel -2
  but -1, and releases the stream.
\<close>

theorem errored_stream_receive:
  "has_error (strm errored_stream_priv 0) \<and> incomingOffset (strm errored_stream_priv 0) = 0 \<and>
   VIR_STREAM_NONBLOCK libvirt_env AND VIR_STREAM_NONBLOCK libvirt_env \<noteq> 0 \<and>
   remoteStreamRecv libvirt_env errored_stream_priv 0 (VIR_STREAM_NONBLOCK libvirt_env) 2 no_io
     = Some (-1, [], errored_stream_priv\<lparr> streams := [] \<rparr>)"
  by (simp add: errored_stream_priv_def one_stream_priv_eval remoteStreamRecv_def
      remoteStreamHasError_def remoteStreamRecv_cleanup_def remoteStreamRelease_def
      calloc_priv_def calloc_stream_def libvirt_env_def)

text \<open>
  Where the release does not return: the loop of \<open>remoteStreamRelease\<close> never advances
  \<open>tmp\<close>, so a receive on a stream with a stored error that is neither the first nor the
  second of the registry does not return.
\<close>

lemma errored_stream_receive_release_loops:
  assumes "has_error (strm priv st)" and "streams priv = a # b # rest" and "a \<noteq> st" and "b \<noteq> st"
  shows "remoteStreamRecv K priv st st_flags nbytes env = None"
  using assms
  by (simp add: remoteStreamRecv_def remoteStreamHasError_def remoteStreamRecv_cleanup_def
      remoteStreamRelease_def)

subsection \<open>Transport errors in the event loop\<close>













subsection \<open>Asynchronous events that are not accepted\<close>

lemma one_call_priv_eval:
  "waitDispatch one_call_priv = [0] \<and> streams one_call_priv = [] \<and> signaled one_call_priv = [] \<and>
   eventQueue one_call_priv = [] \<and>
   priv_bufferLength one_call_priv = 0 \<and> priv_bufferOffset one_call_priv = 0 \<and>
   calls one_call_priv 0 = calloc_call\<lparr> mode := REMOTE_MODE_WAIT_RX, serial := 7,
                proc_nr := 66, want_reply := True, ret_filter := Some \<rparr>"
  by (simp add: one_call_priv_def calloc_priv_def)

lemma event_frame_eval:
  "event_frame = [0, 0, 0, 32, 0x20, 0x00, 0x80, 0x86, 0, 0, 0, 1, 0, 0, 0, 107, 0, 0, 0, 2,
                  0, 0, 0, 0, 0, 0, 0, 0, 0, 0, 0, 1]"
  by (simp add: event_frame_def xdr_remote_message_header_enc_def xdr_u_int_enc_def
      REMOTE_MESSAGE_def REMOTE_OK_def)

lemma unknown_event_frame_eval:
  "unknown_event_frame = [0, 0, 0, 32, 0x20, 0x00, 0x80, 0x86, 0, 0, 0, 1, 0, 0, 0x27, 0x0F, 0, 0, 0, 2,
                  0, 0, 0, 0, 0, 0, 0, 0, 0, 0, 0, 1]"
  by (simp add: unknown_event_frame_def xdr_remote_message_header_enc_def xdr_u_int_enc_def
      REMOTE_MESSAGE_def REMOTE_OK_def)

lemma ok_reply_frame_eval:
  "ok_reply_frame = [0, 0, 0, 32, 0x20, 0x00, 0x80, 0x86, 0, 0, 0, 1, 0, 0, 0, 66, 0, 0, 0, 1,
                  0, 0, 0, 7, 0, 0, 0, 0, 1, 2, 3, 4]"
  by (simp add: ok_reply_frame_def xdr_remote_message_header_enc_def xdr_u_int_enc_def
      REMOTE_REPLY_def REMOTE_OK_def)

text \<open>
  Claim C6 on the code. The dispatcher's call (address 0) waits for its reply; the
  server sends an event and then the reply. An event that arrives while the connection
  is being opened (\<open>REMOTE_CALL_IN_OPEN\<close>), and an event with an unknown procedure
  number, make \<open>processCallDispatchMessage\<close> return -1, which \<open>remoteIOHandleInput\<close> and
  the event loop treat as a failure: the loop returns -1 and takes the dispatcher's call
  off the queue while it is still in \<open>WAIT_RX\<close>, and the reply is never read. A known
  event outside of open is queued and the call completes with the reply.
\<close>

theorem dropped_event_fails_the_dispatcher:
  "mode (calls one_call_priv 0) = REMOTE_MODE_WAIT_RX \<and>
   remoteIOEventLoop libvirt_env one_call_priv REMOTE_CALL_IN_OPEN 0
       [readable_poll event_frame, readable_poll ok_reply_frame]
     = Some (-1, one_call_priv\<lparr> priv_buffer := event_frame, waitDispatch := [] \<rparr>) \<and>
   remoteIOEventLoop libvirt_env one_call_priv 0 0
       [readable_poll unknown_event_frame, readable_poll ok_reply_frame]
     = Some (-1, one_call_priv\<lparr> priv_buffer := unknown_event_frame, waitDispatch := [] \<rparr>) \<and>
   remoteIOEventLoop libvirt_env one_call_priv 0 0
       [readable_poll event_frame, readable_poll ok_reply_frame]
     = Some (0, one_call_priv\<lparr> priv_buffer := ok_reply_frame, waitDispatch := [],
                  eventQueue := [[0, 0, 0, 1]],
                  calls := (calls one_call_priv)(0 := (calls one_call_priv 0)\<lparr> ret := Some [1, 2, 3, 4],
                             mode := REMOTE_MODE_COMPLETE \<rparr>) \<rparr>)"
  using one_call_priv_eval
  unfolding event_frame_eval unknown_event_frame_eval ok_reply_frame_eval
  by (simp add: readable_poll_def Let_def remoteIOReadMessage_def remoteIOReadBuffer_def
      remoteIODecodeMessageLength_def processCallDispatch_def processCallDispatchMessage_def
      processCallDispatchReply_def xdr_remote_message_header_dec_def
      wake_sleepers_def pass_the_buck_def next_of_def is_terminal_def
      calloc_call_def libvirt_env_def
      REMOTE_MESSAGE_HEADER_XDR_LEN_def REMOTE_CALL_QEMU_def REMOTE_CALL_IN_OPEN_def
      REMOTE_REPLY_def REMOTE_MESSAGE_def REMOTE_STREAM_def REMOTE_OK_def REMOTE_ERROR_def)

end
